theory Spec2Isabelle
  imports Complex_Main
begin

section \<open>Numbers\<close>

text \<open>
  The estimator is written in TypeScript; every quantity is a \<^verbatim>\<open>number\<close>. The model
  reads a number as a \<^typ>\<open>real\<close>: sums, products and comparisons are exact, and the
  rounding of IEEE-754 doubles, NaN and the infinities are not represented. The one
  operation of the engine whose real reading differs from the program is the division
  by \<open>(1 + disc) ^ t\<close> when \<open>disc = -1\<close> (the program yields a non-finite number, HOL
  yields 0), so statements about discounted amounts exclude that rate.

  \<^verbatim>\<open>Math.round\<close> rounds to the nearest integer and a tie towards plus infinity.
\<close>

definition Math_round :: "real \<Rightarrow> real" where
  "Math_round x = of_int \<lfloor>x + 1 / 2\<rfloor>"

section \<open>Reference tables and lookups\<close>

subsection \<open>Effective tax rate\<close>

record TaxRow =
  tax_income :: real
  tax_rate :: real

definition NY_EFFECTIVE_TAX_TABLE :: "TaxRow list" where
  "NY_EFFECTIVE_TAX_TABLE =
   [ \<lparr>tax_income = 10000, tax_rate = 0.1482\<rparr>,
     \<lparr>tax_income = 20000, tax_rate = 0.1481\<rparr>,
     \<lparr>tax_income = 25000, tax_rate = 0.1479\<rparr>,
     \<lparr>tax_income = 30000, tax_rate = 0.1386\<rparr>,
     \<lparr>tax_income = 35000, tax_rate = 0.1293\<rparr>,
     \<lparr>tax_income = 40000, tax_rate = 0.1345\<rparr>,
     \<lparr>tax_income = 45000, tax_rate = 0.1396\<rparr>,
     \<lparr>tax_income = 50000, tax_rate = 0.1474\<rparr>,
     \<lparr>tax_income = 60000, tax_rate = 0.1551\<rparr>,
     \<lparr>tax_income = 70000, tax_rate = 0.1629\<rparr>,
     \<lparr>tax_income = 80000, tax_rate = 0.1706\<rparr>,
     \<lparr>tax_income = 90000, tax_rate = 0.1864\<rparr>,
     \<lparr>tax_income = 100000, tax_rate = 0.2021\<rparr>,
     \<lparr>tax_income = 125000, tax_rate = 0.2180\<rparr>,
     \<lparr>tax_income = 150000, tax_rate = 0.2338\<rparr>,
     \<lparr>tax_income = 175000, tax_rate = 0.2497\<rparr>,
     \<lparr>tax_income = 200000, tax_rate = 0.2655\<rparr>,
     \<lparr>tax_income = 225000, tax_rate = 0.3017\<rparr>,
     \<lparr>tax_income = 350000, tax_rate = 0.3378\<rparr> ]"

text \<open>
  The scan of \<^verbatim>\<open>interpolateTaxRate\<close>: \<open>rate\<close> is the value found so far; the first row
  whose threshold exceeds the income ends the scan (\<^verbatim>\<open>break\<close>).
\<close>

fun tax_loop :: "real \<Rightarrow> TaxRow list \<Rightarrow> real \<Rightarrow> real" where
  "tax_loop income [] rate = rate"
| "tax_loop income (r # rs) rate =
     (if income \<ge> tax_income r then tax_loop income rs (tax_rate r) else rate)"

definition interpolateTaxRate :: "real \<Rightarrow> TaxRow list \<Rightarrow> real" where
  "interpolateTaxRate income table =
     (case table of
        [] \<Rightarrow> 0
      | r0 # _ \<Rightarrow> tax_loop income table (tax_rate r0))"

subsection \<open>Personal consumption\<close>

record ConsumptionRow =
  c_income :: real
  Single0 :: real
  Single1Plus :: real
  Married0 :: real
  Married1 :: real
  Married2Plus :: real

definition CONSUMPTION_TABLE :: "ConsumptionRow list" where
  "CONSUMPTION_TABLE =
   [ \<lparr>c_income = 10000, Single0 = 0.779, Single1Plus = 0.185, Married0 = 0.370, Married1 = 0.194, Married2Plus = 0.131\<rparr>,
     \<lparr>c_income = 20000, Single0 = 0.763, Single1Plus = 0.182, Married0 = 0.344, Married1 = 0.184, Married2Plus = 0.126\<rparr>,
     \<lparr>c_income = 25000, Single0 = 0.755, Single1Plus = 0.180, Married0 = 0.330, Married1 = 0.180, Married2Plus = 0.123\<rparr>,
     \<lparr>c_income = 30000, Single0 = 0.747, Single1Plus = 0.178, Married0 = 0.317, Married1 = 0.175, Married2Plus = 0.121\<rparr>,
     \<lparr>c_income = 35000, Single0 = 0.753, Single1Plus = 0.185, Married0 = 0.290, Married1 = 0.169, Married2Plus = 0.120\<rparr>,
     \<lparr>c_income = 40000, Single0 = 0.751, Single1Plus = 0.185, Married0 = 0.258, Married1 = 0.157, Married2Plus = 0.113\<rparr>,
     \<lparr>c_income = 45000, Single0 = 0.748, Single1Plus = 0.185, Married0 = 0.226, Married1 = 0.145, Married2Plus = 0.107\<rparr>,
     \<lparr>c_income = 50000, Single0 = 0.732, Single1Plus = 0.184, Married0 = 0.219, Married1 = 0.142, Married2Plus = 0.105\<rparr>,
     \<lparr>c_income = 60000, Single0 = 0.715, Single1Plus = 0.182, Married0 = 0.211, Married1 = 0.138, Married2Plus = 0.103\<rparr>,
     \<lparr>c_income = 70000, Single0 = 0.682, Single1Plus = 0.175, Married0 = 0.189, Married1 = 0.126, Married2Plus = 0.094\<rparr>,
     \<lparr>c_income = 80000, Single0 = 0.641, Single1Plus = 0.165, Married0 = 0.172, Married1 = 0.116, Married2Plus = 0.087\<rparr>,
     \<lparr>c_income = 90000, Single0 = 0.620, Single1Plus = 0.160, Married0 = 0.164, Married1 = 0.110, Married2Plus = 0.083\<rparr>,
     \<lparr>c_income = 100000, Single0 = 0.599, Single1Plus = 0.155, Married0 = 0.155, Married1 = 0.105, Married2Plus = 0.080\<rparr>,
     \<lparr>c_income = 125000, Single0 = 0.548, Single1Plus = 0.143, Married0 = 0.143, Married1 = 0.097, Married2Plus = 0.073\<rparr>,
     \<lparr>c_income = 150000, Single0 = 0.519, Single1Plus = 0.137, Married0 = 0.132, Married1 = 0.090, Married2Plus = 0.069\<rparr>,
     \<lparr>c_income = 175000, Single0 = 0.490, Single1Plus = 0.131, Married0 = 0.120, Married1 = 0.084, Married2Plus = 0.084\<rparr>,
     \<lparr>c_income = 200000, Single0 = 0.337, Single1Plus = 0.096, Married0 = 0.100, Married1 = 0.070, Married2Plus = 0.054\<rparr>,
     \<lparr>c_income = 225000, Single0 = 0.184, Single1Plus = 0.060, Married0 = 0.081, Married1 = 0.056, Married2Plus = 0.043\<rparr> ]"

datatype Marital = single | married

text \<open>
  The column is chosen first (the source builds the key of the column as a string and
  reads \<^verbatim>\<open>row[col]\<close> at the end; here the column is the field selector itself).
\<close>

definition consumption_col :: "Marital \<Rightarrow> real \<Rightarrow> ConsumptionRow \<Rightarrow> real" where
  "consumption_col marital childrenUnder23 =
     (if marital = single then (if childrenUnder23 \<ge> 1 then Single1Plus else Single0)
      else if childrenUnder23 \<ge> 2 then Married2Plus
      else if childrenUnder23 = 1 then Married1
      else Married0)"

fun consumption_loop :: "real \<Rightarrow> ConsumptionRow list \<Rightarrow> ConsumptionRow \<Rightarrow> ConsumptionRow" where
  "consumption_loop preIncome [] row = row"
| "consumption_loop preIncome (r # rs) row =
     (if preIncome \<ge> c_income r then consumption_loop preIncome rs r else row)"

definition interpolateConsumption ::
  "real \<Rightarrow> Marital \<Rightarrow> real \<Rightarrow> ConsumptionRow list \<Rightarrow> real" where
  "interpolateConsumption preIncome marital childrenUnder23 table =
     (let col = consumption_col marital childrenUnder23
      in case table of
           [] \<Rightarrow> 0
         | r0 # _ \<Rightarrow> col (consumption_loop preIncome table r0))"

subsection \<open>Dependents under 23\<close>

text \<open>A dependent is \<^verbatim>\<open>"none"\<close> (\<open>None\<close>) or a current age.\<close>

definition getChildCountUnder23 :: "real option list \<Rightarrow> real \<Rightarrow> real" where
  "getChildCountUnder23 ages yearIndex =
     (let count = fold (\<lambda>age acc.
                    case age of
                      Some a \<Rightarrow> (if a + yearIndex < 23 then acc + 1 else acc)
                    | None \<Rightarrow> acc) ages 0
      in min count 2)"

subsection \<open>Age-specific earnings growth\<close>

definition AGE_GROWTH :: "(int \<times> real) list" where
  "AGE_GROWTH =
   [ (18, 0.09523), (19, 0.09364), (20, 0.09209), (21, 0.09057), (22, 0.08856), (23, 0.08655),
     (24, 0.08454), (25, 0.08253), (26, 0.08053), (27, 0.07853), (28, 0.07654), (29, 0.07455),
     (30, 0.07256), (31, 0.07058), (32, 0.0686), (33, 0.06663), (34, 0.06465), (35, 0.06269),
     (36, 0.06072), (37, 0.05876), (38, 0.0568), (39, 0.05484), (40, 0.0529), (41, 0.05095),
     (42, 0.04901), (43, 0.04707), (44, 0.04514), (45, 0.04321), (46, 0.04128), (47, 0.03935),
     (48, 0.03743), (49, 0.03551), (50, 0.0336), (51, 0.03169) ]"

text \<open>
  \<^verbatim>\<open>AGE_GROWTH[age]\<close>: the object has the integer keys above, so the read finds a value
  exactly when the number is one of these integers, and is \<^verbatim>\<open>undefined\<close> otherwise.
\<close>

definition AGE_GROWTH_get :: "real \<Rightarrow> real option" where
  "AGE_GROWTH_get age =
     (if of_int \<lfloor>age\<rfloor> = age then map_of AGE_GROWTH \<lfloor>age\<rfloor> else None)"

definition ageGrowth :: "real \<Rightarrow> real \<Rightarrow> real" where
  "ageGrowth age fallback =
     (case AGE_GROWTH_get age of
        Some g \<Rightarrow> g
      | None \<Rightarrow> (if age \<ge> 52 then fallback else 0.03))"

subsection \<open>Discount rate\<close>

definition discountRateAfterTaxForAge :: "real \<Rightarrow> real" where
  "discountRateAfterTaxForAge age =
     (if age \<le> 35 then 0.026
      else if age \<le> 54 then 0.024
      else 0.021)"

subsection \<open>Work-life expectancy\<close>

record WorklifeRow =
  wl_age :: real
  wl_years :: real
  wl_exit :: real

definition WORKLIFE_TABLE :: "WorklifeRow list" where
  "WORKLIFE_TABLE =
   [ \<lparr>wl_age = 25, wl_years = 34.87, wl_exit = 60\<rparr>,
     \<lparr>wl_age = 26, wl_years = 34.04, wl_exit = 60\<rparr>,
     \<lparr>wl_age = 27, wl_years = 33.20, wl_exit = 60\<rparr>,
     \<lparr>wl_age = 28, wl_years = 32.36, wl_exit = 60\<rparr>,
     \<lparr>wl_age = 29, wl_years = 31.51, wl_exit = 61\<rparr>,
     \<lparr>wl_age = 30, wl_years = 30.66, wl_exit = 61\<rparr>,
     \<lparr>wl_age = 31, wl_years = 29.81, wl_exit = 61\<rparr>,
     \<lparr>wl_age = 32, wl_years = 28.94, wl_exit = 61\<rparr>,
     \<lparr>wl_age = 33, wl_years = 28.08, wl_exit = 61\<rparr>,
     \<lparr>wl_age = 34, wl_years = 27.23, wl_exit = 61\<rparr>,
     \<lparr>wl_age = 35, wl_years = 26.37, wl_exit = 61\<rparr>,
     \<lparr>wl_age = 36, wl_years = 25.52, wl_exit = 62\<rparr>,
     \<lparr>wl_age = 37, wl_years = 24.67, wl_exit = 62\<rparr>,
     \<lparr>wl_age = 38, wl_years = 23.83, wl_exit = 62\<rparr>,
     \<lparr>wl_age = 39, wl_years = 22.98, wl_exit = 62\<rparr>,
     \<lparr>wl_age = 40, wl_years = 22.14, wl_exit = 62\<rparr>,
     \<lparr>wl_age = 41, wl_years = 21.30, wl_exit = 62\<rparr>,
     \<lparr>wl_age = 42, wl_years = 20.46, wl_exit = 62\<rparr>,
     \<lparr>wl_age = 43, wl_years = 19.64, wl_exit = 63\<rparr>,
     \<lparr>wl_age = 44, wl_years = 18.82, wl_exit = 63\<rparr>,
     \<lparr>wl_age = 45, wl_years = 18.01, wl_exit = 63\<rparr>,
     \<lparr>wl_age = 46, wl_years = 17.22, wl_exit = 63\<rparr>,
     \<lparr>wl_age = 47, wl_years = 16.42, wl_exit = 63\<rparr>,
     \<lparr>wl_age = 48, wl_years = 15.64, wl_exit = 64\<rparr>,
     \<lparr>wl_age = 49, wl_years = 14.87, wl_exit = 64\<rparr>,
     \<lparr>wl_age = 50, wl_years = 14.13, wl_exit = 64\<rparr>,
     \<lparr>wl_age = 51, wl_years = 13.39, wl_exit = 64\<rparr>,
     \<lparr>wl_age = 52, wl_years = 12.66, wl_exit = 65\<rparr>,
     \<lparr>wl_age = 53, wl_years = 11.93, wl_exit = 65\<rparr>,
     \<lparr>wl_age = 54, wl_years = 11.22, wl_exit = 65\<rparr>,
     \<lparr>wl_age = 55, wl_years = 10.53, wl_exit = 66\<rparr>,
     \<lparr>wl_age = 56, wl_years = 9.87, wl_exit = 66\<rparr>,
     \<lparr>wl_age = 57, wl_years = 9.21, wl_exit = 66\<rparr>,
     \<lparr>wl_age = 58, wl_years = 8.58, wl_exit = 67\<rparr>,
     \<lparr>wl_age = 59, wl_years = 7.95, wl_exit = 67\<rparr>,
     \<lparr>wl_age = 60, wl_years = 7.36, wl_exit = 67\<rparr>,
     \<lparr>wl_age = 61, wl_years = 6.81, wl_exit = 68\<rparr>,
     \<lparr>wl_age = 62, wl_years = 6.33, wl_exit = 68\<rparr>,
     \<lparr>wl_age = 63, wl_years = 5.90, wl_exit = 69\<rparr>,
     \<lparr>wl_age = 64, wl_years = 5.51, wl_exit = 70\<rparr>,
     \<lparr>wl_age = 65, wl_years = 5.17, wl_exit = 70\<rparr>,
     \<lparr>wl_age = 66, wl_years = 4.89, wl_exit = 71\<rparr>,
     \<lparr>wl_age = 67, wl_years = 4.65, wl_exit = 72\<rparr>,
     \<lparr>wl_age = 68, wl_years = 4.43, wl_exit = 72\<rparr>,
     \<lparr>wl_age = 69, wl_years = 4.21, wl_exit = 73\<rparr>,
     \<lparr>wl_age = 70, wl_years = 4.01, wl_exit = 74\<rparr> ]"

record Worklife =
  wlr_years :: real
  exitAge :: real

text \<open>
  \<^verbatim>\<open>WORKLIFE_TABLE.find(...)!\<close>: when no row matches, \<^verbatim>\<open>find\<close> gives \<^verbatim>\<open>undefined\<close> and
  reading \<^verbatim>\<open>entry.years\<close> throws; that outcome is \<open>None\<close>.
\<close>

definition lookupWorklife :: "real \<Rightarrow> Worklife option" where
  "lookupWorklife age =
     (let minAge = wl_age (hd WORKLIFE_TABLE);
          maxAge = wl_age (last WORKLIFE_TABLE);
          a = max minAge (min maxAge (Math_round age))
      in case find (\<lambda>r. wl_age r = a) WORKLIFE_TABLE of
           None \<Rightarrow> None
         | Some entry \<Rightarrow>
             (let roundedYears = Math_round (wl_years entry);
                  exitAge = Math_round (age + roundedYears)
              in Some \<lparr>wlr_years = roundedYears, exitAge = exitAge\<rparr>))"

section \<open>The estimator\<close>

subsection \<open>Configuration\<close>

datatype Mode = injury | wrongfulDeath

datatype Timing = before_medical | after_medical

text \<open>A setting of type \<^verbatim>\<open>number | "auto"\<close>.\<close>

datatype AutoOr = auto | num real

text \<open>
  The state of the component that the computation reads, one field per \<^verbatim>\<open>useState\<close>
  cell, under the source's names.
\<close>

record Config =
  mode :: Mode
  ageAtStart :: real
  years :: real
  baseIncome :: real
  taxRate :: AutoOr
  marital :: Marital
  child1Age :: "real option"
  child2Age :: "real option"
  manualConsumption :: bool
  consumptionPct :: real
  useAgeSpecificGrowth :: bool
  earningsGrowthFixed :: real
  retirementPct :: real
  medicalBase :: real
  medicalGrowth :: real
  unemploymentFactor :: real
  discountOverride :: AutoOr
  unemploymentTiming :: Timing
  offsetAnnual :: real
  offsetYears :: real
  offsetLumpSum :: real
  useFirmWorklife :: bool

subsection \<open>One projection year\<close>

text \<open>
  The object pushed onto \<^verbatim>\<open>rows\<close>. Its key \<^verbatim>\<open>taxRate\<close> is the field \<open>row_taxRate\<close>
  (the configuration has a \<open>taxRate\<close> of its own); the other fields carry the keys'
  names.
\<close>

record YearRow =
  year :: nat
  age :: real
  earnGrowth :: real
  projectedIncome :: real
  retirement :: real
  incomePlusRet :: real
  row_taxRate :: real
  postTaxProjectedIncome :: real
  consumptionRate :: real
  consumptionAmt :: real
  incomeLessConsumption :: real
  healthContribution :: real
  unemploymentAdjIncome :: real
  postTaxAdjusted :: real
  discounted :: real

text \<open>
  The consumption rate of year \<open>t\<close> (\<^verbatim>\<open>yearConsumption\<close>): zero unless the mode is
  wrongful death.
\<close>

definition yearConsumption :: "Config \<Rightarrow> nat \<Rightarrow> real" where
  "yearConsumption cfg t =
     (if mode cfg = wrongfulDeath then
        (let y = real t - 1;
             childUnder23Count = getChildCountUnder23 [child1Age cfg, child2Age cfg] y
         in if manualConsumption cfg then consumptionPct cfg
            else interpolateConsumption (baseIncome cfg) (marital cfg) childUnder23Count
                   CONSUMPTION_TABLE)
      else 0)"

text \<open>
  The body of the year loop from \<^verbatim>\<open>const retirement\<close> to \<^verbatim>\<open>rows.push\<close>: \<open>salary\<close> and
  \<open>med\<close> are the values already grown for year \<open>t\<close>.
\<close>

definition year_row ::
  "Config \<Rightarrow> real \<Rightarrow> real \<Rightarrow> real \<Rightarrow> nat \<Rightarrow> real \<Rightarrow> real \<Rightarrow> real \<Rightarrow> real \<Rightarrow> YearRow" where
  "year_row cfg effTax disc afterTaxAtStart t a g salary med =
     (let ret = salary * retirementPct cfg;
          ipr = salary + ret;
          yc = yearConsumption cfg t;
          (uai, postTaxBase, cAmt, afterConsumption, subtotalBeforeDiscount) =
            (if unemploymentTiming cfg = before_medical then
               (let uai = ipr * (1 - unemploymentFactor cfg);
                    postTaxBase = uai * (1 - effTax);
                    cAmt = (if mode cfg = wrongfulDeath then afterTaxAtStart * yc else 0);
                    afterConsumption = postTaxBase - cAmt;
                    subtotalBeforeDiscount = afterConsumption + med
                in (uai, postTaxBase, cAmt, afterConsumption, subtotalBeforeDiscount))
             else
               (let postTaxBase = ipr * (1 - effTax);
                    cAmt = (if mode cfg = wrongfulDeath then afterTaxAtStart * yc else 0);
                    afterConsumption = postTaxBase - cAmt;
                    subtotal = afterConsumption + med;
                    uai = subtotal * (1 - unemploymentFactor cfg);
                    subtotalBeforeDiscount = uai
                in (uai, postTaxBase, cAmt, afterConsumption, subtotalBeforeDiscount)));
          pv = subtotalBeforeDiscount / (1 + disc) ^ t
      in \<lparr> year = t,
           age = a,
           earnGrowth = g,
           projectedIncome = salary,
           retirement = ret,
           incomePlusRet = ipr,
           row_taxRate = effTax,
           postTaxProjectedIncome = postTaxBase,
           consumptionRate = yc,
           consumptionAmt = cAmt,
           incomeLessConsumption = afterConsumption,
           healthContribution = med,
           unemploymentAdjIncome = uai,
           postTaxAdjusted = subtotalBeforeDiscount,
           discounted = pv \<rparr>)"

text \<open>
  The year loop runs over the running salary, the running medical benefit, the sum of
  present values and the rows so far. \<open>year_body\<close> is one pass through the body of
  \<^verbatim>\<open>for (let t = 1; t <= calcYears; t++)\<close>, \<open>year_loop\<close> the loop itself.
\<close>

fun year_body ::
  "Config \<Rightarrow> real \<Rightarrow> real \<Rightarrow> real \<Rightarrow> nat \<Rightarrow> real \<times> real \<times> real \<times> YearRow list
     \<Rightarrow> real \<times> real \<times> real \<times> YearRow list" where
  "year_body cfg effTax disc afterTaxAtStart t (salary, med, pvSum, rows) =
     (let a = ageAtStart cfg + real t;
          g = (if useAgeSpecificGrowth cfg then ageGrowth a 0.03
               else earningsGrowthFixed cfg);
          salary' = salary * (1 + g);
          med' = med * (1 + medicalGrowth cfg);
          row = year_row cfg effTax disc afterTaxAtStart t a g salary' med'
      in (salary', med', pvSum + discounted row, rows @ [row]))"

function year_loop ::
  "Config \<Rightarrow> real \<Rightarrow> real \<Rightarrow> real \<Rightarrow> real \<Rightarrow> nat \<Rightarrow> real \<times> real \<times> real \<times> YearRow list
     \<Rightarrow> real \<times> real \<times> real \<times> YearRow list" where
  "year_loop cfg effTax disc afterTaxAtStart calcYears t st =
     (if real t \<le> calcYears
      then year_loop cfg effTax disc afterTaxAtStart calcYears (t + 1)
             (year_body cfg effTax disc afterTaxAtStart t st)
      else st)"
  by pat_completeness auto
termination
proof (relation "measure (\<lambda>(cfg, effTax, disc, afterTaxAtStart, calcYears, t, st).
                            nat (\<lfloor>calcYears\<rfloor> + 1) - t)")
  show "wf (measure (\<lambda>(cfg :: Config, effTax :: real, disc :: real, afterTaxAtStart :: real,
                        calcYears :: real, t :: nat, st :: real \<times> real \<times> real \<times> YearRow list).
                       nat (\<lfloor>calcYears\<rfloor> + 1) - t))"
    by simp
next
  fix cfg :: Config and effTax disc afterTaxAtStart calcYears :: real and t :: nat
    and st :: "real \<times> real \<times> real \<times> YearRow list"
  assume le: "real t \<le> calcYears"
  then have "int t \<le> \<lfloor>calcYears\<rfloor>"
    by (simp add: le_floor_iff)
  then have "nat (\<lfloor>calcYears\<rfloor> + 1) - (t + 1) < nat (\<lfloor>calcYears\<rfloor> + 1) - t"
    by linarith
  then show "((cfg, effTax, disc, afterTaxAtStart, calcYears, t + 1,
               year_body cfg effTax disc afterTaxAtStart t st),
              (cfg, effTax, disc, afterTaxAtStart, calcYears, t, st))
             \<in> measure (\<lambda>(cfg, effTax, disc, afterTaxAtStart, calcYears, t, st).
                            nat (\<lfloor>calcYears\<rfloor> + 1) - t)"
    by simp
qed

declare year_loop.simps [simp del]

subsection \<open>Offsets\<close>

text \<open>\<^verbatim>\<open>for (let t = 1; t <= offsetYears; t++) pvOffset += offsetAnnual / Math.pow(1 + disc, t)\<close>\<close>

function offset_loop :: "real \<Rightarrow> real \<Rightarrow> real \<Rightarrow> nat \<Rightarrow> real \<Rightarrow> real" where
  "offset_loop oAnnual disc oYears t pvOffset =
     (if real t \<le> oYears
      then offset_loop oAnnual disc oYears (t + 1) (pvOffset + oAnnual / (1 + disc) ^ t)
      else pvOffset)"
  by pat_completeness auto
termination
proof (relation "measure (\<lambda>(oAnnual, disc, oYears, t, pvOffset). nat (\<lfloor>oYears\<rfloor> + 1) - t)")
  show "wf (measure (\<lambda>(oAnnual :: real, disc :: real, oYears :: real, t :: nat, pvOffset :: real).
                       nat (\<lfloor>oYears\<rfloor> + 1) - t))"
    by simp
next
  fix oAnnual disc oYears pvOffset :: real and t :: nat
  assume "real t \<le> oYears"
  then have "int t \<le> \<lfloor>oYears\<rfloor>"
    by (simp add: le_floor_iff)
  then have "nat (\<lfloor>oYears\<rfloor> + 1) - (t + 1) < nat (\<lfloor>oYears\<rfloor> + 1) - t"
    by linarith
  then show "((oAnnual, disc, oYears, t + 1, pvOffset + oAnnual / (1 + disc) ^ t),
              (oAnnual, disc, oYears, t, pvOffset))
             \<in> measure (\<lambda>(oAnnual, disc, oYears, t, pvOffset). nat (\<lfloor>oYears\<rfloor> + 1) - t)"
    by simp
qed

declare offset_loop.simps [simp del]

subsection \<open>The core computation\<close>

record Results =
  pvSum :: real
  pvOffset :: real
  netPV :: real
  effTax :: real
  disc :: real
  rows :: "YearRow list"

text \<open>The body of the \<^verbatim>\<open>useMemo\<close> named \<^verbatim>\<open>results\<close>, for a horizon \<open>calcYears\<close>.\<close>

definition results :: "Config \<Rightarrow> real \<Rightarrow> Results" where
  "results cfg calcYears =
     (let eT = (case taxRate cfg of
                  auto \<Rightarrow> interpolateTaxRate (baseIncome cfg) NY_EFFECTIVE_TAX_TABLE
                | num x \<Rightarrow> x);
          d = (case discountOverride cfg of
                 auto \<Rightarrow> discountRateAfterTaxForAge (ageAtStart cfg)
               | num x \<Rightarrow> x);
          afterTaxAtStart = baseIncome cfg * (1 - eT);
          (salary, med, pvS, rs) =
            year_loop cfg eT d afterTaxAtStart calcYears 1 (baseIncome cfg, medicalBase cfg, 0, []);
          pvO = (if offsetAnnual cfg > 0 \<and> offsetYears cfg > 0
                 then offset_loop (offsetAnnual cfg) d (offsetYears cfg) 1 0
                 else 0);
          pvO' = pvO + offsetLumpSum cfg;
          nPV = max 0 (pvS - pvO')
      in \<lparr> pvSum = pvS, pvOffset = pvO', netPV = nPV, effTax = eT, disc = d, rows = rs \<rparr>)"

text \<open>
  The component: \<^verbatim>\<open>autoWL\<close> is computed on every render, then the horizon
  \<^verbatim>\<open>calcYears\<close> is the table's rounded years or the manual \<open>years\<close>.
\<close>

definition calcYears :: "Config \<Rightarrow> real option" where
  "calcYears cfg =
     (case lookupWorklife (ageAtStart cfg) of
        None \<Rightarrow> None
      | Some autoWL \<Rightarrow> Some (if useFirmWorklife cfg then wlr_years autoWL else years cfg))"

definition VCFEstimator :: "Config \<Rightarrow> Results option" where
  "VCFEstimator cfg =
     (case calcYears cfg of
        None \<Rightarrow> None
      | Some n \<Rightarrow> Some (results cfg n))"

subsection \<open>Concrete configurations\<close>

text \<open>
  The scenario of the specification: the initial state of the component (start age 55,
  wrongful death, married, base income 100000, firm work-life table, unemployment before
  medical, automatic tax, discount and consumption) with one dependent aged 10.
\<close>

definition cfgScenario :: Config where
  "cfgScenario =
     \<lparr> mode = wrongfulDeath, ageAtStart = 55, years = 12, baseIncome = 100000,
       taxRate = auto, marital = married, child1Age = Some 10, child2Age = None,
       manualConsumption = False, consumptionPct = 0.105, useAgeSpecificGrowth = True,
       earningsGrowthFixed = 0.03, retirementPct = 0.04, medicalBase = 7280,
       medicalGrowth = 0.023, unemploymentFactor = 0.06, discountOverride = auto,
       unemploymentTiming = before_medical, offsetAnnual = 0, offsetYears = 0,
       offsetLumpSum = 0, useFirmWorklife = True \<rparr>"

text \<open>The scenario over a manual horizon of one year.\<close>

definition cfgOneYear :: Config where
  "cfgOneYear = cfgScenario \<lparr> years := 1, useFirmWorklife := False \<rparr>"

text \<open>The one-year scenario with no income before the loss.\<close>

definition cfgNoIncome :: Config where
  "cfgNoIncome = cfgOneYear \<lparr> baseIncome := 0 \<rparr>"

text \<open>The one-year scenario in the legacy ordering, and in injury mode.\<close>

definition cfgLegacy :: Config where
  "cfgLegacy = cfgOneYear \<lparr> unemploymentTiming := after_medical \<rparr>"

definition cfgInjury :: Config where
  "cfgInjury = cfgOneYear \<lparr> mode := injury \<rparr>"

text \<open>
  The one-year scenario with a periodic offset of 1000 over two years and a lump sum of
  500000, and with a negative periodic offset.
\<close>

definition cfgOffsets :: Config where
  "cfgOffsets = cfgOneYear \<lparr> offsetAnnual := 1000, offsetYears := 2, offsetLumpSum := 500000 \<rparr>"

definition cfgNegativeOffset :: Config where
  "cfgNegativeOffset = cfgOneYear \<lparr> offsetAnnual := - 500, offsetYears := 5, offsetLumpSum := 1000 \<rparr>"

section \<open>Vocabulary of the specification\<close>

text \<open>
  A bracket table has strictly ascending thresholds. \<open>highest_threshold_row thr table q r\<close>
  says that \<open>r\<close> is the row of the table with the highest threshold not above the query.
\<close>

definition ascending_thresholds :: "('r \<Rightarrow> real) \<Rightarrow> 'r list \<Rightarrow> bool" where
  "ascending_thresholds thr table = sorted_wrt (<) (map thr table)"

definition highest_threshold_row :: "('r \<Rightarrow> real) \<Rightarrow> 'r list \<Rightarrow> real \<Rightarrow> 'r \<Rightarrow> bool" where
  "highest_threshold_row thr table q r =
     (r \<in> set table \<and> thr r \<le> q \<and> (\<forall>r' \<in> set table. thr r' \<le> q \<longrightarrow> thr r' \<le> thr r))"

text \<open>
  The running values in closed form, to compare the year loop against: the growth rate
  applied in year \<open>t\<close>, the salary after \<open>t\<close> periods of growth over the base income
  (year 1 already carries one period), and the medical benefit after \<open>t\<close> periods of
  growth over its base.
\<close>

definition growthOfYear :: "Config \<Rightarrow> nat \<Rightarrow> real" where
  "growthOfYear cfg t =
     (if useAgeSpecificGrowth cfg then ageGrowth (ageAtStart cfg + real t) 0.03
      else earningsGrowthFixed cfg)"

fun salaryAfter :: "Config \<Rightarrow> nat \<Rightarrow> real" where
  "salaryAfter cfg 0 = baseIncome cfg"
| "salaryAfter cfg (Suc t) = salaryAfter cfg t * (1 + growthOfYear cfg (Suc t))"

definition medicalAfter :: "Config \<Rightarrow> nat \<Rightarrow> real" where
  "medicalAfter cfg t = medicalBase cfg * (1 + medicalGrowth cfg) ^ t"

section \<open>The year loop\<close>

lemma year_body_rows:
  "snd (snd (snd (year_body cfg eT d aT t st))) =
     snd (snd (snd st)) @
       [year_row cfg eT d aT t (ageAtStart cfg + real t)
          (if useAgeSpecificGrowth cfg then ageGrowth (ageAtStart cfg + real t) 0.03
           else earningsGrowthFixed cfg)
          (fst st * (1 + (if useAgeSpecificGrowth cfg then ageGrowth (ageAtStart cfg + real t) 0.03
           else earningsGrowthFixed cfg)))
          (fst (snd st) * (1 + medicalGrowth cfg))]"
  by (cases st) (simp add: Let_def)

lemma year_body_pvSum:
  "fst (snd (snd (year_body cfg eT d aT t st))) =
     fst (snd (snd st)) + discounted (last (snd (snd (snd (year_body cfg eT d aT t st)))))"
  by (cases st) (simp add: Let_def)

text \<open>A property of every row the body can produce holds of every row of the loop.\<close>

lemma year_loop_rows_inv:
  "(\<And>t a g s m. P (year_row cfg eT d aT t a g s m)) \<Longrightarrow>
   \<forall>r\<in>set (snd (snd (snd st))). P r \<Longrightarrow>
   \<forall>r\<in>set (snd (snd (snd (year_loop cfg eT d aT n t st)))). P r"
proof (induction cfg eT d aT n t st rule: year_loop.induct)
  case (1 cfg effTax disc afterTaxAtStart calcYears t st)
  show ?case
  proof (cases "real t \<le> calcYears")
    case True
    have "\<forall>r\<in>set (snd (snd (snd (year_body cfg effTax disc afterTaxAtStart t st)))). P r"
      using 1(2,3) by (simp add: year_body_rows del: year_body.simps)
    then show ?thesis
      using 1(1)[OF True 1(2)] True by (subst year_loop.simps) simp
  next
    case False
    then show ?thesis using 1(3) by (subst year_loop.simps) simp
  qed
qed

text \<open>The attained ages of the rows: one row for each \<open>t\<close> from the start to the horizon.\<close>

lemma year_loop_ages:
  "1 \<le> t \<Longrightarrow>
   map age (snd (snd (snd (year_loop cfg eT d aT n t st)))) =
     map age (snd (snd (snd st))) @ map (\<lambda>k. ageAtStart cfg + real k) [t ..< nat \<lfloor>n\<rfloor> + 1]"
proof (induction cfg eT d aT n t st rule: year_loop.induct)
  case (1 cfg effTax disc afterTaxAtStart calcYears t st)
  show ?case
  proof (cases "real t \<le> calcYears")
    case True
    then have le: "int t \<le> \<lfloor>calcYears\<rfloor>"
      by (simp add: le_floor_iff)
    then have "t < nat \<lfloor>calcYears\<rfloor> + 1"
      by linarith
    then have up: "[t ..< nat \<lfloor>calcYears\<rfloor> + 1] = t # [t + 1 ..< nat \<lfloor>calcYears\<rfloor> + 1]"
      using upt_conv_Cons [of t "nat \<lfloor>calcYears\<rfloor> + 1"] by simp
    have "age (year_row cfg effTax disc afterTaxAtStart t a g s m) = a" for a g s m
      by (simp add: year_row_def Let_def split: prod.splits)
    then have "map age (snd (snd (snd (year_body cfg effTax disc afterTaxAtStart t st)))) =
            map age (snd (snd (snd st))) @ [ageAtStart cfg + real t]"
      by (simp add: year_body_rows del: year_body.simps)
    then show ?thesis
      using 1(1)[OF True] True up by (subst year_loop.simps) simp
  next
    case False
    then have "\<lfloor>calcYears\<rfloor> < int t"
      by (simp add: floor_less_iff)
    then have "nat \<lfloor>calcYears\<rfloor> + 1 \<le> t"
      using 1(2) by linarith
    then have "[t ..< nat \<lfloor>calcYears\<rfloor> + 1] = []"
      by simp
    then show ?thesis using False by (subst year_loop.simps) simp
  qed
qed

text \<open>The running sum is the sum of the rows' discounted amounts.\<close>

lemma year_loop_pvSum:
  "fst (snd (snd st)) = p0 + sum_list (map discounted (snd (snd (snd st)))) \<Longrightarrow>
   fst (snd (snd (year_loop cfg eT d aT n t st))) =
     p0 + sum_list (map discounted (snd (snd (snd (year_loop cfg eT d aT n t st)))))"
proof (induction cfg eT d aT n t st rule: year_loop.induct)
  case (1 cfg effTax disc afterTaxAtStart calcYears t st)
  show ?case
  proof (cases "real t \<le> calcYears")
    case True
    have "fst (snd (snd (year_body cfg effTax disc afterTaxAtStart t st))) =
            p0 + sum_list (map discounted
                   (snd (snd (snd (year_body cfg effTax disc afterTaxAtStart t st)))))"
      using 1(2)
      by (subst year_body_pvSum) (simp add: year_body_rows del: year_body.simps)
    then show ?thesis
      using 1(1)[OF True] True by (subst (1 2) year_loop.simps) simp
  next
    case False
    then show ?thesis using 1(2) by (subst (1 2) year_loop.simps) simp
  qed
qed

section \<open>The fields of the result\<close>

lemma results_rows:
  "rows (results cfg n) =
     snd (snd (snd (year_loop cfg (effTax (results cfg n)) (disc (results cfg n))
       (baseIncome cfg * (1 - effTax (results cfg n))) n 1
       (baseIncome cfg, medicalBase cfg, 0, []))))"
  by (simp add: results_def Let_def split: prod.splits)

lemma results_pvSum:
  "pvSum (results cfg n) =
     fst (snd (snd (year_loop cfg (effTax (results cfg n)) (disc (results cfg n))
       (baseIncome cfg * (1 - effTax (results cfg n))) n 1
       (baseIncome cfg, medicalBase cfg, 0, []))))"
  by (simp add: results_def Let_def split: prod.splits)

lemma results_pvOffset:
  "pvOffset (results cfg n) =
     (if offsetAnnual cfg > 0 \<and> offsetYears cfg > 0
      then offset_loop (offsetAnnual cfg) (disc (results cfg n)) (offsetYears cfg) 1 0
      else 0) + offsetLumpSum cfg"
  by (simp add: results_def Let_def split: prod.splits)

lemma results_netPV:
  "netPV (results cfg n) = max 0 (pvSum (results cfg n) - pvOffset (results cfg n))"
  by (simp add: results_def Let_def split: prod.splits)

lemma results_rows_inv:
  assumes "\<And>t a g s m. P (year_row cfg (effTax (results cfg n)) (disc (results cfg n))
             (baseIncome cfg * (1 - effTax (results cfg n))) t a g s m)"
    and "r \<in> set (rows (results cfg n))"
  shows "P r"
  using year_loop_rows_inv [of P cfg "effTax (results cfg n)" "disc (results cfg n)"
      "baseIncome cfg * (1 - effTax (results cfg n))" "(baseIncome cfg, medicalBase cfg, 0, [])" n 1]
    assms
  by (simp add: results_rows)

lemma VCFEstimator_Some:
  "VCFEstimator cfg = Some res \<Longrightarrow> \<exists>n. res = results cfg n"
  by (auto simp: VCFEstimator_def split: option.splits)

text \<open>The offset loop adds the annuity terms of the years 1 to the offset duration.\<close>

lemma offset_loop_sum:
  "1 \<le> t \<Longrightarrow>
   offset_loop A d N t acc = acc + (\<Sum>k = t..nat \<lfloor>N\<rfloor>. A / (1 + d) ^ k)"
proof (induction A d N t acc rule: offset_loop.induct)
  case (1 oAnnual disc oYears t pvOffset)
  show ?case
  proof (cases "real t \<le> oYears")
    case True
    then have "int t \<le> \<lfloor>oYears\<rfloor>"
      by (simp add: le_floor_iff)
    then have "t \<le> nat \<lfloor>oYears\<rfloor>"
      by linarith
    then have "(\<Sum>k = t..nat \<lfloor>oYears\<rfloor>. oAnnual / (1 + disc) ^ k) =
                 oAnnual / (1 + disc) ^ t + (\<Sum>k = t + 1..nat \<lfloor>oYears\<rfloor>. oAnnual / (1 + disc) ^ k)"
      by (simp add: sum.atLeast_Suc_atMost)
    then show ?thesis
      using 1(1)[OF True] True by (subst offset_loop.simps) simp
  next
    case False
    then have "\<lfloor>oYears\<rfloor> < int t"
      by (simp add: floor_less_iff)
    then have "nat \<lfloor>oYears\<rfloor> < t"
      using 1(2) by linarith
    then show ?thesis using False by (subst offset_loop.simps) simp
  qed
qed

lemma results_pvSum_rows:
  "pvSum (results cfg n) = sum_list (map discounted (rows (results cfg n)))"
  using year_loop_pvSum [of "(baseIncome cfg, medicalBase cfg, 0, [])" 0 cfg
      "effTax (results cfg n)" "disc (results cfg n)"
      "baseIncome cfg * (1 - effTax (results cfg n))" n 1]
  by (simp add: results_rows results_pvSum)

section \<open>The rows in closed form\<close>

lemma year_body_state:
  "fst (year_body cfg eT d aT t st) = fst st * (1 + growthOfYear cfg t) \<and>
   fst (snd (year_body cfg eT d aT t st)) = fst (snd st) * (1 + medicalGrowth cfg)"
  by (cases st) (simp add: Let_def growthOfYear_def)

lemma year_body_rows_closed:
  "snd (snd (snd (year_body cfg eT d aT t st))) =
     snd (snd (snd st)) @
       [year_row cfg eT d aT t (ageAtStart cfg + real t) (growthOfYear cfg t)
          (fst st * (1 + growthOfYear cfg t)) (fst (snd st) * (1 + medicalGrowth cfg))]"
  by (simp add: year_body_rows growthOfYear_def del: year_body.simps)

lemma year_row_year: "year (year_row cfg eT d aT t a g s m) = t"
  by (simp add: year_row_def Let_def split: prod.splits)

text \<open>Every row of the loop is the row of its year, built from the closed forms.\<close>

lemma year_loop_rows_closed:
  "fst st = salaryAfter cfg k \<Longrightarrow> fst (snd st) = medicalAfter cfg k \<Longrightarrow>
   \<forall>r\<in>set (snd (snd (snd st))).
      1 \<le> year r \<and>
      r = year_row cfg eT d aT (year r) (ageAtStart cfg + real (year r)) (growthOfYear cfg (year r))
            (salaryAfter cfg (year r)) (medicalAfter cfg (year r)) \<Longrightarrow>
   t = Suc k \<Longrightarrow>
   \<forall>r\<in>set (snd (snd (snd (year_loop cfg eT d aT n t st)))).
      1 \<le> year r \<and>
      r = year_row cfg eT d aT (year r) (ageAtStart cfg + real (year r)) (growthOfYear cfg (year r))
            (salaryAfter cfg (year r)) (medicalAfter cfg (year r))"
proof (induction cfg eT d aT n t st arbitrary: k rule: year_loop.induct)
  case (1 cfg effTax disc afterTaxAtStart calcYears t st)
  let ?Q = "\<lambda>r. 1 \<le> year r \<and>
      r = year_row cfg effTax disc afterTaxAtStart (year r) (ageAtStart cfg + real (year r))
            (growthOfYear cfg (year r)) (salaryAfter cfg (year r)) (medicalAfter cfg (year r))"
  show ?case
  proof (cases "real t \<le> calcYears")
    case True
    let ?st = "year_body cfg effTax disc afterTaxAtStart t st"
    have s: "fst ?st = salaryAfter cfg t"
      using 1(2,5) by (simp add: year_body_state del: year_body.simps)
    have m: "fst (snd ?st) = medicalAfter cfg t"
      using 1(3,5) by (simp add: year_body_state medicalAfter_def del: year_body.simps)
    have new: "fst st * (1 + growthOfYear cfg t) = salaryAfter cfg t"
      "fst (snd st) * (1 + medicalGrowth cfg) = medicalAfter cfg t"
      using s m by (simp_all add: year_body_state del: year_body.simps)
    have r: "\<forall>r\<in>set (snd (snd (snd ?st))). ?Q r"
      using 1(4,5) unfolding year_body_rows_closed new
      by (simp add: year_row_year)
    have "\<forall>r\<in>set (snd (snd (snd (year_loop cfg effTax disc afterTaxAtStart calcYears (t + 1) ?st)))). ?Q r"
      using 1(1) [OF True s m r] by simp
    then show ?thesis
      using True by (subst year_loop.simps) simp
  next
    case False
    then show ?thesis using 1(4) by (subst year_loop.simps) simp
  qed
qed

lemma year_loop_years:
  "1 \<le> t \<Longrightarrow>
   map year (snd (snd (snd (year_loop cfg eT d aT n t st)))) =
     map year (snd (snd (snd st))) @ [t ..< nat \<lfloor>n\<rfloor> + 1]"
proof (induction cfg eT d aT n t st rule: year_loop.induct)
  case (1 cfg effTax disc afterTaxAtStart calcYears t st)
  show ?case
  proof (cases "real t \<le> calcYears")
    case True
    then have le: "int t \<le> \<lfloor>calcYears\<rfloor>"
      by (simp add: le_floor_iff)
    then have "t < nat \<lfloor>calcYears\<rfloor> + 1"
      by linarith
    then have up: "[t ..< nat \<lfloor>calcYears\<rfloor> + 1] = t # [t + 1 ..< nat \<lfloor>calcYears\<rfloor> + 1]"
      using upt_conv_Cons [of t "nat \<lfloor>calcYears\<rfloor> + 1"] by simp
    have "map year (snd (snd (snd (year_body cfg effTax disc afterTaxAtStart t st)))) =
            map year (snd (snd (snd st))) @ [t]"
      by (simp add: year_body_rows year_row_year del: year_body.simps)
    then show ?thesis
      using 1(1)[OF True] True up by (subst year_loop.simps) simp
  next
    case False
    then have "\<lfloor>calcYears\<rfloor> < int t"
      by (simp add: floor_less_iff)
    then have "nat \<lfloor>calcYears\<rfloor> + 1 \<le> t"
      using 1(2) by linarith
    then have "[t ..< nat \<lfloor>calcYears\<rfloor> + 1] = []"
      by simp
    then show ?thesis using False by (subst year_loop.simps) simp
  qed
qed

lemma results_row_closed:
  assumes "r \<in> set (rows (results cfg n))"
  shows "1 \<le> year r \<and>
         r = year_row cfg (effTax (results cfg n)) (disc (results cfg n))
               (baseIncome cfg * (1 - effTax (results cfg n))) (year r)
               (ageAtStart cfg + real (year r)) (growthOfYear cfg (year r))
               (salaryAfter cfg (year r)) (medicalAfter cfg (year r))"
proof -
  let ?st = "(baseIncome cfg, medicalBase cfg, 0 :: real, [] :: YearRow list)"
  have s: "fst ?st = salaryAfter cfg 0" and m: "fst (snd ?st) = medicalAfter cfg 0"
    by (simp_all add: medicalAfter_def)
  have e: "\<forall>r\<in>set (snd (snd (snd ?st))).
      1 \<le> year r \<and>
      r = year_row cfg (effTax (results cfg n)) (disc (results cfg n))
               (baseIncome cfg * (1 - effTax (results cfg n))) (year r)
               (ageAtStart cfg + real (year r)) (growthOfYear cfg (year r))
               (salaryAfter cfg (year r)) (medicalAfter cfg (year r))"
    by simp
  have o: "(1 :: nat) = Suc 0"
    by simp
  show ?thesis
    using year_loop_rows_closed [OF s m e o, of n] assms
    unfolding results_rows by blast
qed

lemma results_years:
  "map year (rows (results cfg n)) = [1 ..< nat \<lfloor>n\<rfloor> + 1]"
  unfolding results_rows by (subst year_loop_years) simp_all

lemma VCFEstimator_calcYears:
  "VCFEstimator cfg = Some res \<Longrightarrow> calcYears cfg = Some n \<Longrightarrow> res = results cfg n"
  by (simp add: VCFEstimator_def)

text \<open>The row of a year in each ordering, field by field.\<close>

lemma year_row_before:
  "unemploymentTiming cfg = before_medical \<Longrightarrow>
   year_row cfg eT d aT t a g s m =
     \<lparr> year = t, age = a, earnGrowth = g, projectedIncome = s,
       retirement = s * retirementPct cfg,
       incomePlusRet = s + s * retirementPct cfg,
       row_taxRate = eT,
       postTaxProjectedIncome =
         (s + s * retirementPct cfg) * (1 - unemploymentFactor cfg) * (1 - eT),
       consumptionRate = yearConsumption cfg t,
       consumptionAmt = (if mode cfg = wrongfulDeath then aT * yearConsumption cfg t else 0),
       incomeLessConsumption =
         (s + s * retirementPct cfg) * (1 - unemploymentFactor cfg) * (1 - eT)
         - (if mode cfg = wrongfulDeath then aT * yearConsumption cfg t else 0),
       healthContribution = m,
       unemploymentAdjIncome = (s + s * retirementPct cfg) * (1 - unemploymentFactor cfg),
       postTaxAdjusted =
         (s + s * retirementPct cfg) * (1 - unemploymentFactor cfg) * (1 - eT)
         - (if mode cfg = wrongfulDeath then aT * yearConsumption cfg t else 0) + m,
       discounted =
         ((s + s * retirementPct cfg) * (1 - unemploymentFactor cfg) * (1 - eT)
          - (if mode cfg = wrongfulDeath then aT * yearConsumption cfg t else 0) + m)
         / (1 + d) ^ t \<rparr>"
  by (simp add: year_row_def Let_def)

lemma year_row_after:
  "unemploymentTiming cfg = after_medical \<Longrightarrow>
   year_row cfg eT d aT t a g s m =
     \<lparr> year = t, age = a, earnGrowth = g, projectedIncome = s,
       retirement = s * retirementPct cfg,
       incomePlusRet = s + s * retirementPct cfg,
       row_taxRate = eT,
       postTaxProjectedIncome = (s + s * retirementPct cfg) * (1 - eT),
       consumptionRate = yearConsumption cfg t,
       consumptionAmt = (if mode cfg = wrongfulDeath then aT * yearConsumption cfg t else 0),
       incomeLessConsumption =
         (s + s * retirementPct cfg) * (1 - eT)
         - (if mode cfg = wrongfulDeath then aT * yearConsumption cfg t else 0),
       healthContribution = m,
       unemploymentAdjIncome =
         ((s + s * retirementPct cfg) * (1 - eT)
          - (if mode cfg = wrongfulDeath then aT * yearConsumption cfg t else 0) + m)
         * (1 - unemploymentFactor cfg),
       postTaxAdjusted =
         ((s + s * retirementPct cfg) * (1 - eT)
          - (if mode cfg = wrongfulDeath then aT * yearConsumption cfg t else 0) + m)
         * (1 - unemploymentFactor cfg),
       discounted =
         ((s + s * retirementPct cfg) * (1 - eT)
          - (if mode cfg = wrongfulDeath then aT * yearConsumption cfg t else 0) + m)
         * (1 - unemploymentFactor cfg) / (1 + d) ^ t \<rparr>"
  by (simp add: year_row_def Let_def)

section \<open>Bracket lookup\<close>

lemma tax_loop_range: "tax_loop q tbl acc = acc \<or> tax_loop q tbl acc \<in> tax_rate ` set tbl"
  by (induction tbl arbitrary: acc) auto

lemma tax_loop_below: "(\<forall>r\<in>set tbl. q < tax_income r) \<Longrightarrow> tax_loop q tbl acc = acc"
  by (cases tbl) auto

lemma tax_loop_highest:
  "sorted_wrt (<) (map tax_income tbl) \<Longrightarrow> highest_threshold_row tax_income tbl q r \<Longrightarrow>
   tax_loop q tbl acc = tax_rate r"
proof (induction tbl arbitrary: acc)
  case Nil
  then show ?case by (simp add: highest_threshold_row_def)
next
  case (Cons x xs)
  from Cons.prems have rx: "r = x \<or> r \<in> set xs" and rq: "tax_income r \<le> q"
    and mx: "\<forall>r'\<in>set (x # xs). tax_income r' \<le> q \<longrightarrow> tax_income r' \<le> tax_income r"
    and lt: "\<forall>y\<in>set xs. tax_income x < tax_income y" and srt: "sorted_wrt (<) (map tax_income xs)"
    by (auto simp: highest_threshold_row_def)
  have xq: "tax_income x \<le> q"
    using rx rq lt by force
  show ?case
  proof (cases "r \<in> set xs")
    case True
    then have "highest_threshold_row tax_income xs q r"
      using rq mx by (simp add: highest_threshold_row_def)
    then show ?thesis using Cons.IH [OF srt] xq by simp
  next
    case False
    then have "r = x" using rx by simp
    then have "\<forall>y\<in>set xs. q < tax_income y"
      using mx lt by force
    then show ?thesis using xq \<open>r = x\<close> by (simp add: tax_loop_below)
  qed
qed

lemma consumption_loop_range:
  "consumption_loop q tbl acc = acc \<or> consumption_loop q tbl acc \<in> set tbl"
  by (induction tbl arbitrary: acc) auto

lemma consumption_loop_below:
  "(\<forall>r\<in>set tbl. q < c_income r) \<Longrightarrow> consumption_loop q tbl acc = acc"
  by (cases tbl) auto

lemma consumption_loop_highest:
  "sorted_wrt (<) (map c_income tbl) \<Longrightarrow> highest_threshold_row c_income tbl q r \<Longrightarrow>
   consumption_loop q tbl acc = r"
proof (induction tbl arbitrary: acc)
  case Nil
  then show ?case by (simp add: highest_threshold_row_def)
next
  case (Cons x xs)
  from Cons.prems have rx: "r = x \<or> r \<in> set xs" and rq: "c_income r \<le> q"
    and mx: "\<forall>r'\<in>set (x # xs). c_income r' \<le> q \<longrightarrow> c_income r' \<le> c_income r"
    and lt: "\<forall>y\<in>set xs. c_income x < c_income y" and srt: "sorted_wrt (<) (map c_income xs)"
    by (auto simp: highest_threshold_row_def)
  have xq: "c_income x \<le> q"
    using rx rq lt by force
  show ?case
  proof (cases "r \<in> set xs")
    case True
    then have "highest_threshold_row c_income xs q r"
      using rq mx by (simp add: highest_threshold_row_def)
    then show ?thesis using Cons.IH [OF srt] xq by simp
  next
    case False
    then have "r = x" using rx by simp
    then have "\<forall>y\<in>set xs. q < c_income y"
      using mx lt by force
    then show ?thesis using xq \<open>r = x\<close> by (simp add: consumption_loop_below)
  qed
qed

text \<open>
  Claim C7. Bracket lookup, for the tax rate and for the consumption rate alike: an empty
  table gives 0; on a table whose thresholds ascend strictly, the lookup returns the value
  of the row with the highest threshold not above the query; a query below every threshold
  returns the value of the first row; and the result of a lookup in a non-empty table is
  always the value of one of its rows, never a value between two rows.
\<close>

theorem bracket_lookup_contract:
  "(interpolateTaxRate q [] = 0 \<and> interpolateConsumption q m k [] = 0) \<and>
   (ascending_thresholds tax_income table \<longrightarrow>
      (\<forall>r. highest_threshold_row tax_income table q r \<longrightarrow>
             interpolateTaxRate q table = tax_rate r)) \<and>
   (ascending_thresholds c_income ctable \<longrightarrow>
      (\<forall>r. highest_threshold_row c_income ctable q r \<longrightarrow>
             interpolateConsumption q m k ctable = consumption_col m k r)) \<and>
   (table \<noteq> [] \<and> (\<forall>r\<in>set table. q < tax_income r) \<longrightarrow>
      interpolateTaxRate q table = tax_rate (hd table)) \<and>
   (ctable \<noteq> [] \<and> (\<forall>r\<in>set ctable. q < c_income r) \<longrightarrow>
      interpolateConsumption q m k ctable = consumption_col m k (hd ctable)) \<and>
   (table \<noteq> [] \<longrightarrow> interpolateTaxRate q table \<in> tax_rate ` set table) \<and>
   (ctable \<noteq> [] \<longrightarrow> interpolateConsumption q m k ctable \<in> consumption_col m k ` set ctable)"
proof -
  have e: "interpolateTaxRate q [] = 0 \<and> interpolateConsumption q m k [] = 0"
    by (simp add: interpolateTaxRate_def interpolateConsumption_def)
  have t1: "interpolateTaxRate q table = tax_rate r"
    if "ascending_thresholds tax_income table" "highest_threshold_row tax_income table q r" for r
  proof -
    from that(2) have "table \<noteq> []" by (auto simp: highest_threshold_row_def)
    then obtain x xs where "table = x # xs" by (cases table) auto
    then show ?thesis
      using tax_loop_highest [of table q r "tax_rate x"] that
      by (simp add: interpolateTaxRate_def ascending_thresholds_def)
  qed
  have c1: "interpolateConsumption q m k ctable = consumption_col m k r"
    if "ascending_thresholds c_income ctable" "highest_threshold_row c_income ctable q r" for r
  proof -
    from that(2) have "ctable \<noteq> []" by (auto simp: highest_threshold_row_def)
    then obtain x xs where "ctable = x # xs" by (cases ctable) auto
    then show ?thesis
      using consumption_loop_highest [of ctable q r x] that
      by (simp add: interpolateConsumption_def ascending_thresholds_def)
  qed
  have t2: "interpolateTaxRate q table = tax_rate (hd table)"
    if "table \<noteq> []" "\<forall>r\<in>set table. q < tax_income r"
    using that tax_loop_below [of table q "tax_rate (hd table)"]
    by (cases table) (simp_all add: interpolateTaxRate_def)
  have c2: "interpolateConsumption q m k ctable = consumption_col m k (hd ctable)"
    if "ctable \<noteq> []" "\<forall>r\<in>set ctable. q < c_income r"
    using that consumption_loop_below [of ctable q "hd ctable"]
    by (cases ctable) (simp_all add: interpolateConsumption_def)
  have t3: "interpolateTaxRate q table \<in> tax_rate ` set table" if "table \<noteq> []"
    using that tax_loop_range [of q table "tax_rate (hd table)"]
    by (cases table) (auto simp: interpolateTaxRate_def)
  have c3: "interpolateConsumption q m k ctable \<in> consumption_col m k ` set ctable"
    if "ctable \<noteq> []"
    using that consumption_loop_range [of q ctable "hd ctable"]
    by (cases ctable) (auto simp: interpolateConsumption_def)
  show ?thesis
    using e t1 c1 t2 c2 t3 c3 by blast
qed

text \<open>
  The contract on the shipped tables, whose thresholds ascend strictly: the query 95000
  falls into the bracket of 90000, the query 5000 lies below every threshold.
\<close>

theorem bracket_lookup_contract_witness:
  "ascending_thresholds tax_income NY_EFFECTIVE_TAX_TABLE \<and>
   highest_threshold_row tax_income NY_EFFECTIVE_TAX_TABLE 95000
     \<lparr>tax_income = 90000, tax_rate = 0.1864\<rparr> \<and>
   interpolateTaxRate 95000 NY_EFFECTIVE_TAX_TABLE = 0.1864 \<and>
   ascending_thresholds c_income CONSUMPTION_TABLE \<and>
   highest_threshold_row c_income CONSUMPTION_TABLE 95000
     \<lparr>c_income = 90000, Single0 = 0.620, Single1Plus = 0.160, Married0 = 0.164,
      Married1 = 0.110, Married2Plus = 0.083\<rparr> \<and>
   interpolateConsumption 95000 married 1 CONSUMPTION_TABLE = 0.110 \<and>
   NY_EFFECTIVE_TAX_TABLE \<noteq> [] \<and>
   list_all (\<lambda>r. 5000 < tax_income r) NY_EFFECTIVE_TAX_TABLE \<and>
   interpolateTaxRate 5000 NY_EFFECTIVE_TAX_TABLE = 0.1482 \<and>
   CONSUMPTION_TABLE \<noteq> [] \<and>
   list_all (\<lambda>r. 5000 < c_income r) CONSUMPTION_TABLE \<and>
   interpolateConsumption 5000 married 1 CONSUMPTION_TABLE = 0.194 \<and>
   interpolateTaxRate 95000 NY_EFFECTIVE_TAX_TABLE \<in> tax_rate ` set NY_EFFECTIVE_TAX_TABLE \<and>
   interpolateConsumption 95000 married 1 CONSUMPTION_TABLE
     \<in> consumption_col married 1 ` set CONSUMPTION_TABLE"
proof -
  let ?tr = "\<lparr>tax_income = 90000, tax_rate = 0.1864\<rparr>"
  let ?cr = "\<lparr>c_income = 90000, Single0 = 0.620, Single1Plus = 0.160, Married0 = 0.164,
      Married1 = 0.110, Married2Plus = 0.083\<rparr>"
  have a1: "ascending_thresholds tax_income NY_EFFECTIVE_TAX_TABLE"
    by (simp add: ascending_thresholds_def NY_EFFECTIVE_TAX_TABLE_def)
  have h1: "highest_threshold_row tax_income NY_EFFECTIVE_TAX_TABLE 95000 ?tr"
    by (simp add: highest_threshold_row_def NY_EFFECTIVE_TAX_TABLE_def)
  have a2: "ascending_thresholds c_income CONSUMPTION_TABLE"
    by (simp add: ascending_thresholds_def CONSUMPTION_TABLE_def)
  have h2: "highest_threshold_row c_income CONSUMPTION_TABLE 95000 ?cr"
    by (simp add: highest_threshold_row_def CONSUMPTION_TABLE_def)
  have n1: "NY_EFFECTIVE_TAX_TABLE \<noteq> []"
    by (simp add: NY_EFFECTIVE_TAX_TABLE_def)
  have l1: "list_all (\<lambda>r. 5000 < tax_income r) NY_EFFECTIVE_TAX_TABLE"
    by (simp add: NY_EFFECTIVE_TAX_TABLE_def)
  then have b1: "\<forall>r\<in>set NY_EFFECTIVE_TAX_TABLE. 5000 < tax_income r"
    by (simp only: list_all_iff)
  have n2: "CONSUMPTION_TABLE \<noteq> []"
    by (simp add: CONSUMPTION_TABLE_def)
  have l2: "list_all (\<lambda>r. 5000 < c_income r) CONSUMPTION_TABLE"
    by (simp add: CONSUMPTION_TABLE_def)
  then have b2: "\<forall>r\<in>set CONSUMPTION_TABLE. 5000 < c_income r"
    by (simp only: list_all_iff)
  note hi = bracket_lookup_contract [of 95000 married 1 NY_EFFECTIVE_TAX_TABLE CONSUMPTION_TABLE]
  note lo = bracket_lookup_contract [of 5000 married 1 NY_EFFECTIVE_TAX_TABLE CONSUMPTION_TABLE]
  have r1: "interpolateTaxRate 95000 NY_EFFECTIVE_TAX_TABLE = tax_rate ?tr"
    using hi a1 h1 by blast
  have r2: "interpolateConsumption 95000 married 1 CONSUMPTION_TABLE = consumption_col married 1 ?cr"
    using hi a2 h2 by blast
  have r3: "interpolateTaxRate 5000 NY_EFFECTIVE_TAX_TABLE = tax_rate (hd NY_EFFECTIVE_TAX_TABLE)"
    using lo n1 b1 by blast
  have r4: "interpolateConsumption 5000 married 1 CONSUMPTION_TABLE =
              consumption_col married 1 (hd CONSUMPTION_TABLE)"
    using lo n2 b2 by blast
  have r5: "interpolateTaxRate 95000 NY_EFFECTIVE_TAX_TABLE \<in> tax_rate ` set NY_EFFECTIVE_TAX_TABLE"
    using hi n1 by blast
  have r6: "interpolateConsumption 95000 married 1 CONSUMPTION_TABLE
     \<in> consumption_col married 1 ` set CONSUMPTION_TABLE"
    using hi n2 by blast
  have v1: "tax_rate ?tr = 0.1864" by simp
  have v2: "consumption_col married 1 ?cr = 0.110" by (simp add: consumption_col_def)
  have v3: "tax_rate (hd NY_EFFECTIVE_TAX_TABLE) = 0.1482" by (simp add: NY_EFFECTIVE_TAX_TABLE_def)
  have v4: "consumption_col married 1 (hd CONSUMPTION_TABLE) = 0.194"
    by (simp add: CONSUMPTION_TABLE_def consumption_col_def)
  show ?thesis
    using a1 h1 a2 h2 n1 l1 n2 l2 r1 [unfolded v1] r2 [unfolded v2] r3 [unfolded v3]
      r4 [unfolded v4] r5 r6
    by blast
qed

section \<open>Monotonicity of the tax lookup\<close>

lemma tax_loop_prefix:
  "xs \<noteq> [] \<Longrightarrow> \<forall>r\<in>set xs. tax_income r \<le> q \<Longrightarrow>
   tax_loop q (xs @ ys) acc = tax_loop q ys (tax_rate (last xs))"
proof (induction xs arbitrary: acc)
  case Nil
  then show ?case by simp
next
  case (Cons x xs)
  then show ?case by (cases xs) auto
qed

lemma tax_loop_mono:
  "sorted (map tax_rate tbl) \<Longrightarrow> \<forall>r\<in>set tbl. a2 \<le> tax_rate r \<Longrightarrow> a1 \<le> a2 \<Longrightarrow> q1 \<le> q2 \<Longrightarrow>
   tax_loop q1 tbl a1 \<le> tax_loop q2 tbl a2"
proof (induction tbl arbitrary: a1 a2)
  case Nil
  then show ?case by simp
next
  case (Cons x xs)
  show ?case
  proof (cases "tax_income x \<le> q1")
    case True
    then have "tax_income x \<le> q2" using Cons.prems(4) by simp
    moreover have "tax_loop q1 xs (tax_rate x) \<le> tax_loop q2 xs (tax_rate x)"
      using Cons.prems by (intro Cons.IH) auto
    ultimately show ?thesis using True by simp
  next
    case False
    have "a1 \<le> tax_loop q2 xs (tax_rate x)"
      using tax_loop_range [of q2 xs "tax_rate x"] Cons.prems(2,3) by auto
    then show ?thesis using False Cons.prems(3) by simp
  qed
qed

lemma tax_from_35000:
  "35000 \<le> q \<Longrightarrow>
   interpolateTaxRate q NY_EFFECTIVE_TAX_TABLE =
     tax_loop q (drop 5 NY_EFFECTIVE_TAX_TABLE) (1293 / 10000)"
  using tax_loop_prefix [of "take 5 NY_EFFECTIVE_TAX_TABLE" q "drop 5 NY_EFFECTIVE_TAX_TABLE"
      "tax_rate (hd NY_EFFECTIVE_TAX_TABLE)"]
  by (simp add: interpolateTaxRate_def NY_EFFECTIVE_TAX_TABLE_def del: tax_loop.simps)

text \<open>
  Claim C6. On the shipped tax table the lookup is non-decreasing from 35000 upward: for
  all incomes \<open>35000 \<le> i1 < i2\<close> the rate at \<open>i2\<close> is at least the rate at \<open>i1\<close>.
  (Below 35000 the shipped rates fall as the income rises.)
\<close>

theorem tax_monotone_from_35000:
  assumes "35000 \<le> i1" and "i1 < i2"
  shows "interpolateTaxRate i1 NY_EFFECTIVE_TAX_TABLE \<le> interpolateTaxRate i2 NY_EFFECTIVE_TAX_TABLE"
proof -
  have s: "sorted (map tax_rate (drop 5 NY_EFFECTIVE_TAX_TABLE))"
    by (simp add: NY_EFFECTIVE_TAX_TABLE_def)
  have b: "\<forall>r\<in>set (drop 5 NY_EFFECTIVE_TAX_TABLE). 1293 / 10000 \<le> tax_rate r"
    by (simp add: NY_EFFECTIVE_TAX_TABLE_def)
  have "tax_loop i1 (drop 5 NY_EFFECTIVE_TAX_TABLE) (1293 / 10000)
          \<le> tax_loop i2 (drop 5 NY_EFFECTIVE_TAX_TABLE) (1293 / 10000)"
    using assms by (intro tax_loop_mono [OF s b]) simp_all
  then show ?thesis
    using assms by (simp add: tax_from_35000)
qed

text \<open>The rates at the incomes 90000 and 100000.\<close>

theorem tax_monotone_witness:
  "(35000::real) \<le> 90000 \<and> (90000::real) < 100000 \<and>
   interpolateTaxRate 90000 NY_EFFECTIVE_TAX_TABLE \<le> interpolateTaxRate 100000 NY_EFFECTIVE_TAX_TABLE"
  using tax_monotone_from_35000 [of 90000 100000] by simp

text \<open>
  Over the full domain the lookup is not monotone: the rate at 10000 is 0.1482, the rate
  at 20000 is 0.1481.
\<close>

theorem tax_not_monotone:
  "(10000::real) < 20000 \<and>
   \<not> interpolateTaxRate 20000 NY_EFFECTIVE_TAX_TABLE \<ge> interpolateTaxRate 10000 NY_EFFECTIVE_TAX_TABLE"
  by (simp add: interpolateTaxRate_def NY_EFFECTIVE_TAX_TABLE_def)

section \<open>Work-life lookup\<close>

lemma worklife_ages: "map wl_age WORKLIFE_TABLE = map of_int [25..70]"
  by (simp add: WORKLIFE_TABLE_def)

lemma worklife_bounds:
  "wl_age (hd WORKLIFE_TABLE) = 25 \<and> wl_age (last WORKLIFE_TABLE) = 70"
  by (simp add: WORKLIFE_TABLE_def)

lemma clamp_round: "max 25 (min 70 (Math_round a)) = of_int (max 25 (min 70 \<lfloor>a + 1 / 2\<rfloor>))"
  by (simp add: Math_round_def)

lemma worklife_find:
  "\<exists>entry. find (\<lambda>r. wl_age r = max 25 (min 70 (Math_round a))) WORKLIFE_TABLE = Some entry"
proof -
  let ?k = "max 25 (min 70 \<lfloor>a + 1 / 2\<rfloor>)"
  have "?k \<in> {25..70}"
    by simp
  then have "?k \<in> set [25..70]"
    by (simp only: set_upto)
  then have "real_of_int ?k \<in> set (map wl_age WORKLIFE_TABLE)"
    unfolding worklife_ages by (simp del: set_upto)
  then have "\<exists>r\<in>set WORKLIFE_TABLE. wl_age r = max 25 (min 70 (Math_round a))"
    unfolding clamp_round by auto
  then have "find (\<lambda>r. wl_age r = max 25 (min 70 (Math_round a))) WORKLIFE_TABLE \<noteq> None"
    by (auto simp: find_None_iff)
  then show ?thesis by auto
qed



lemma lookupWorklife_total: "\<exists>w. lookupWorklife a = Some w"
  using worklife_find [of a] by (auto simp: lookupWorklife_def worklife_bounds Let_def)

text \<open>
  Past the upper end of the table the computed exit age leaves the stored one: at 80 the
  row of age 70 is used, whose exit column is 74.
\<close>

lemma lookupWorklife_80: "lookupWorklife 80 = Some \<lparr>wlr_years = 4, exitAge = 84\<rparr>"
  by (simp add: lookupWorklife_def WORKLIFE_TABLE_def Math_round_def)

section \<open>Age growth\<close>

lemma AGE_GROWTH_dom: "map_of AGE_GROWTH k = Some g \<Longrightarrow> 18 \<le> k \<and> k \<le> 51"
  by (simp add: AGE_GROWTH_def split: if_splits)

lemma AGE_GROWTH_mapped: "18 \<le> k \<Longrightarrow> k \<le> 51 \<Longrightarrow> map_of AGE_GROWTH k \<noteq> None"
proof -
  assume "18 \<le> k" "k \<le> 51"
  then have "k \<in> {18..51}" by simp
  then have "k \<in> set [18..51]" by (simp only: set_upto)
  moreover have "map fst AGE_GROWTH = [18..51]"
    by (simp add: AGE_GROWTH_def)
  ultimately have "k \<in> fst ` set AGE_GROWTH"
    by (metis list.set_map)
  then show ?thesis
    by (simp add: map_of_eq_None_iff)
qed

text \<open>
  Claim C9. The growth lookup returns the tabulated rate for every age in the table (the
  integers 18 to 51, and no other number); for an age that is not in the table it returns
  the fallback passed in when the age is at least 52, and 3 percent, whatever the
  fallback, when the age is below 52; so every age from 52 on gets the fallback and every
  age below 18 gets 3 percent.
\<close>

theorem ageGrowth_contract:
  "(map_of AGE_GROWTH k = Some g \<longrightarrow> ageGrowth (of_int k) fallback = g) \<and>
   (AGE_GROWTH_get a = None \<and> a \<ge> 52 \<longrightarrow> ageGrowth a fallback = fallback) \<and>
   (AGE_GROWTH_get a = None \<and> a < 52 \<longrightarrow> ageGrowth a fallback = 0.03) \<and>
   (a \<ge> 52 \<longrightarrow> ageGrowth a fallback = fallback) \<and>
   (a < 18 \<longrightarrow> ageGrowth a fallback = 0.03) \<and>
   (AGE_GROWTH_get a \<noteq> None \<longleftrightarrow> (\<exists>j. a = of_int j \<and> 18 \<le> j \<and> j \<le> 51))"
proof -
  have dom: "AGE_GROWTH_get a \<noteq> None \<longleftrightarrow> (\<exists>j. a = of_int j \<and> 18 \<le> j \<and> j \<le> 51)"
  proof
    assume "AGE_GROWTH_get a \<noteq> None"
    then have "of_int \<lfloor>a\<rfloor> = a" and "map_of AGE_GROWTH \<lfloor>a\<rfloor> \<noteq> None"
      by (auto simp: AGE_GROWTH_get_def split: if_splits)
    then show "\<exists>j. a = of_int j \<and> 18 \<le> j \<and> j \<le> 51"
      using AGE_GROWTH_dom [of "\<lfloor>a\<rfloor>"] by (intro exI [of _ "\<lfloor>a\<rfloor>"]) auto
  next
    assume "\<exists>j. a = of_int j \<and> 18 \<le> j \<and> j \<le> 51"
    then show "AGE_GROWTH_get a \<noteq> None"
      using AGE_GROWTH_mapped by (auto simp: AGE_GROWTH_get_def)
  qed
  have hi: "AGE_GROWTH_get a = None" if "a \<ge> 52"
  proof (rule ccontr)
    assume "AGE_GROWTH_get a \<noteq> None"
    then obtain j where "a = of_int j" "j \<le> 51" using dom by blast
    then show False using that by simp
  qed
  have lo: "AGE_GROWTH_get a = None" if "a < 18"
  proof (rule ccontr)
    assume "AGE_GROWTH_get a \<noteq> None"
    then obtain j where "a = of_int j" "18 \<le> j" using dom by blast
    then show False using that by simp
  qed
  have m: "ageGrowth (of_int k) fallback = g" if "map_of AGE_GROWTH k = Some g"
    using that by (simp add: ageGrowth_def AGE_GROWTH_get_def)
  show ?thesis
    using dom hi lo m by (auto simp: ageGrowth_def)
qed

text \<open>The ages 30 (tabulated), 60, 30.5 and 10 (not tabulated), with a fallback of 5 percent.\<close>

theorem ageGrowth_contract_witness:
  "map_of AGE_GROWTH 30 = Some 0.07256 \<and> ageGrowth 30 0.05 = 0.07256 \<and>
   AGE_GROWTH_get 60 = None \<and> (60::real) \<ge> 52 \<and> ageGrowth 60 0.05 = 0.05 \<and>
   AGE_GROWTH_get 30.5 = None \<and> (30.5::real) < 52 \<and> ageGrowth 30.5 0.05 = 0.03 \<and>
   (10::real) < 18 \<and> ageGrowth 10 0.05 = 0.03 \<and>
   AGE_GROWTH_get 30 \<noteq> None"
proof -
  have m: "map_of AGE_GROWTH 30 = Some 0.07256"
    by (simp add: AGE_GROWTH_def)
  have u60: "AGE_GROWTH_get 60 = None"
    by (simp add: AGE_GROWTH_get_def AGE_GROWTH_def)
  have fl: "\<lfloor>(61::real) / 2\<rfloor> = 30"
    by (simp add: floor_eq_iff)
  have u305: "AGE_GROWTH_get 30.5 = None"
    using fl by (simp add: AGE_GROWTH_get_def)
  have "ageGrowth (of_int 30) 0.05 = 0.07256"
    using ageGrowth_contract [where k = 30 and g = "0.07256" and a = 60 and fallback = "0.05"] m by blast
  then have r1: "ageGrowth 30 0.05 = 0.07256" by simp
  have r2: "ageGrowth 60 0.05 = 0.05"
    using ageGrowth_contract [where k = 30 and g = "0.07256" and a = 60 and fallback = "0.05"] u60 by simp
  have r3: "ageGrowth 30.5 0.05 = 0.03"
    using ageGrowth_contract [where k = 30 and g = "0.07256" and a = "30.5" and fallback = "0.05"] u305 by simp
  have r4: "ageGrowth 10 0.05 = 0.03"
    using ageGrowth_contract [where k = 30 and g = "0.07256" and a = 10 and fallback = "0.05"] by simp
  have r5: "AGE_GROWTH_get 30 \<noteq> None"
    using ageGrowth_contract [where k = 30 and g = "0.07256" and a = 30 and fallback = "0.05"] by (auto intro: exI [of _ 30])
  show ?thesis
    using m u60 u305 r1 r2 r3 r4 r5 by simp
qed

section \<open>Results of concrete configurations\<close>

lemma results_effTax:
  "effTax (results cfg n) =
     (case taxRate cfg of
        auto \<Rightarrow> interpolateTaxRate (baseIncome cfg) NY_EFFECTIVE_TAX_TABLE
      | num x \<Rightarrow> x)"
  by (simp add: results_def Let_def split: prod.splits)

lemma results_disc:
  "disc (results cfg n) =
     (case discountOverride cfg of
        auto \<Rightarrow> discountRateAfterTaxForAge (ageAtStart cfg)
      | num x \<Rightarrow> x)"
  by (simp add: results_def Let_def split: prod.splits)

lemma year_loop_one_year:
  "year_loop cfg eT d aT 1 (Suc 0) st = year_body cfg eT d aT (Suc 0) st"
  by (subst year_loop.simps, subst year_loop.simps) (simp del: year_body.simps)

lemma results_one_year:
  "rows (results cfg 1) =
     [year_row cfg (effTax (results cfg 1)) (disc (results cfg 1))
        (baseIncome cfg * (1 - effTax (results cfg 1))) 1 (ageAtStart cfg + 1)
        (if useAgeSpecificGrowth cfg then ageGrowth (ageAtStart cfg + 1) 0.03
         else earningsGrowthFixed cfg)
        (baseIncome cfg * (1 + (if useAgeSpecificGrowth cfg then ageGrowth (ageAtStart cfg + 1) 0.03
         else earningsGrowthFixed cfg)))
        (medicalBase cfg * (1 + medicalGrowth cfg))]"
  by (simp add: results_rows year_loop_one_year year_body_rows del: year_body.simps)

lemma VCFEstimator_manual_years:
  "\<not> useFirmWorklife cfg \<Longrightarrow> VCFEstimator cfg = Some (results cfg (years cfg))"
  using lookupWorklife_total [of "ageAtStart cfg"]
  by (auto simp: VCFEstimator_def calcYears_def)

text \<open>The component always produces a result.\<close>

lemma VCFEstimator_total: "\<exists>res. VCFEstimator cfg = Some res"
  using lookupWorklife_total [of "ageAtStart cfg"]
  by (auto simp: VCFEstimator_def calcYears_def)

lemma ageGrowth_56: "ageGrowth 56 (3 / 100) = 3 / 100"
  by (simp add: ageGrowth_def AGE_GROWTH_get_def AGE_GROWTH_def)

lemma tax_100000: "interpolateTaxRate 100000 NY_EFFECTIVE_TAX_TABLE = 0.2021"
  by (simp add: interpolateTaxRate_def NY_EFFECTIVE_TAX_TABLE_def)

lemma tax_0: "interpolateTaxRate 0 NY_EFFECTIVE_TAX_TABLE = 0.1482"
  by (simp add: interpolateTaxRate_def NY_EFFECTIVE_TAX_TABLE_def)

lemma consumption_scenario_year1:
  "interpolateConsumption 100000 married (getChildCountUnder23 [Some 10, None] 0) CONSUMPTION_TABLE
     = 0.105"
  by (simp add: interpolateConsumption_def getChildCountUnder23_def consumption_col_def
        CONSUMPTION_TABLE_def)

section \<open>The two orderings of the adjustments\<close>

text \<open>
  Claim C1. With the unemployment factor applied before medical, the projection has one
  row for each year from 1 to the horizon, and every row satisfies: the projected income
  is the base income grown over the row's year, the retirement add-on is the projected
  income times the retirement rate, and the medical contribution is the medical base
  grown over the row's year; the unemployment-adjusted income is income plus retirement
  times (1 - unemployment factor); the post-tax income is the unemployment-adjusted income
  times (1 - effective tax rate); income less consumption is post-tax income minus the
  consumption amount; the subtotal before discount is income less consumption plus the
  medical contribution. Consequently the unemployment-adjusted income is at most income
  plus retirement when the unemployment factor is positive and income plus retirement is
  not negative, and the post-tax income is at most the unemployment-adjusted income when
  the tax rate is positive and the unemployment-adjusted income is not negative.
\<close>

theorem before_medical_order:
  assumes "VCFEstimator cfg = Some res"
    and "calcYears cfg = Some n"
    and "unemploymentTiming cfg = before_medical"
    and "r \<in> set (rows res)"
  shows "map year (rows res) = [1 ..< nat \<lfloor>n\<rfloor> + 1] \<and>
         projectedIncome r = salaryAfter cfg (year r) \<and>
         retirement r = projectedIncome r * retirementPct cfg \<and>
         incomePlusRet r = projectedIncome r + retirement r \<and>
         healthContribution r = medicalAfter cfg (year r) \<and>
         consumptionAmt r =
           (if mode cfg = wrongfulDeath
            then baseIncome cfg * (1 - effTax res) * yearConsumption cfg (year r) else 0) \<and>
         effTax res =
           (case taxRate cfg of
              auto \<Rightarrow> interpolateTaxRate (baseIncome cfg) NY_EFFECTIVE_TAX_TABLE
            | num x \<Rightarrow> x) \<and>
         unemploymentAdjIncome r = incomePlusRet r * (1 - unemploymentFactor cfg) \<and>
         postTaxProjectedIncome r = unemploymentAdjIncome r * (1 - effTax res) \<and>
         incomeLessConsumption r = postTaxProjectedIncome r - consumptionAmt r \<and>
         postTaxAdjusted r = incomeLessConsumption r + healthContribution r \<and>
         (unemploymentFactor cfg > 0 \<and> incomePlusRet r \<ge> 0 \<longrightarrow>
            unemploymentAdjIncome r \<le> incomePlusRet r) \<and>
         (effTax res > 0 \<and> unemploymentAdjIncome r \<ge> 0 \<longrightarrow>
            postTaxProjectedIncome r \<le> unemploymentAdjIncome r)"
proof -
  have res: "res = results cfg n"
    using assms(1,2) by (rule VCFEstimator_calcYears)
  have ys: "map year (rows res) = [1 ..< nat \<lfloor>n\<rfloor> + 1]"
    unfolding res by (rule results_years)
  have eT: "effTax res =
           (case taxRate cfg of
              auto \<Rightarrow> interpolateTaxRate (baseIncome cfg) NY_EFFECTIVE_TAX_TABLE
            | num x \<Rightarrow> x)"
    unfolding res by (rule results_effTax)
  let ?row = "year_row cfg (effTax res) (disc res) (baseIncome cfg * (1 - effTax res)) (year r)
               (ageAtStart cfg + real (year r)) (growthOfYear cfg (year r))
               (salaryAfter cfg (year r)) (medicalAfter cfg (year r))"
  have eq: "r = ?row"
    using results_row_closed [of r cfg n] assms(4) unfolding res by blast
  note row = year_row_before [OF assms(3)]
  have f1: "projectedIncome r = salaryAfter cfg (year r)"
    using arg_cong [OF eq, of projectedIncome] by (simp add: row)
  have f2: "retirement r = salaryAfter cfg (year r) * retirementPct cfg"
    using arg_cong [OF eq, of retirement] by (simp add: row)
  have f3: "incomePlusRet r = salaryAfter cfg (year r) + salaryAfter cfg (year r) * retirementPct cfg"
    using arg_cong [OF eq, of incomePlusRet] by (simp add: row)
  have f4: "healthContribution r = medicalAfter cfg (year r)"
    using arg_cong [OF eq, of healthContribution] by (simp add: row)
  have f5: "consumptionAmt r =
           (if mode cfg = wrongfulDeath
            then baseIncome cfg * (1 - effTax res) * yearConsumption cfg (year r) else 0)"
    using arg_cong [OF eq, of consumptionAmt] by (simp add: row)
  have f6: "unemploymentAdjIncome r = incomePlusRet r * (1 - unemploymentFactor cfg)"
    using arg_cong [OF eq, of unemploymentAdjIncome] by (simp add: row f3)
  have f7: "postTaxProjectedIncome r = unemploymentAdjIncome r * (1 - effTax res)"
    using arg_cong [OF eq, of postTaxProjectedIncome] by (simp add: row f3 f6)
  have f8: "incomeLessConsumption r = postTaxProjectedIncome r - consumptionAmt r"
    using arg_cong [OF eq, of incomeLessConsumption] by (simp add: row f3 f5 f6 f7)
  have f9: "postTaxAdjusted r = incomeLessConsumption r + healthContribution r"
    using arg_cong [OF eq, of postTaxAdjusted] by (simp add: row f3 f4 f5 f6 f7 f8)
  have u: "unemploymentAdjIncome r \<le> incomePlusRet r"
    if "unemploymentFactor cfg > 0" "incomePlusRet r \<ge> 0"
    unfolding f6 using that by (intro mult_left_le) simp_all
  have p: "postTaxProjectedIncome r \<le> unemploymentAdjIncome r"
    if "effTax res > 0" "unemploymentAdjIncome r \<ge> 0"
    unfolding f7 using that by (intro mult_left_le) simp_all
  have f2': "retirement r = projectedIncome r * retirementPct cfg"
    using f1 f2 by simp
  have f3': "incomePlusRet r = projectedIncome r + retirement r"
    using f1 f2 f3 by simp
  show ?thesis
    using ys eT f1 f2' f3' f4 f5 f6 f7 f8 f9 u p by blast
qed

text \<open>The single row of each one-year configuration.\<close>

lemma rows_cfgOneYear:
  "rows (results cfgOneYear 1) =
     [year_row cfgOneYear (2021 / 10000) (21 / 1000) 79790 (Suc 0) 56 (3 / 100) 103000 (186186 / 25)]"
  by (simp add: results_one_year results_effTax results_disc)
     (simp add: cfgOneYear_def cfgScenario_def tax_100000 discountRateAfterTaxForAge_def ageGrowth_56)

lemma rows_cfgNoIncome:
  "rows (results cfgNoIncome 1) =
     [year_row cfgNoIncome (1482 / 10000) (21 / 1000) 0 (Suc 0) 56 (3 / 100) 0 (186186 / 25)]"
  by (simp add: results_one_year results_effTax results_disc)
     (simp add: cfgNoIncome_def cfgOneYear_def cfgScenario_def tax_0 discountRateAfterTaxForAge_def
        ageGrowth_56)

lemma rows_cfgLegacy:
  "rows (results cfgLegacy 1) =
     [year_row cfgLegacy (2021 / 10000) (21 / 1000) 79790 (Suc 0) 56 (3 / 100) 103000 (186186 / 25)]"
  by (simp add: results_one_year results_effTax results_disc)
     (simp add: cfgLegacy_def cfgOneYear_def cfgScenario_def tax_100000 discountRateAfterTaxForAge_def
        ageGrowth_56)

lemma rows_cfgInjury:
  "rows (results cfgInjury 1) =
     [year_row cfgInjury (2021 / 10000) (21 / 1000) 79790 (Suc 0) 56 (3 / 100) 103000 (186186 / 25)]"
  by (simp add: results_one_year results_effTax results_disc)
     (simp add: cfgInjury_def cfgOneYear_def cfgScenario_def tax_100000 discountRateAfterTaxForAge_def
        ageGrowth_56)

lemma rows_cfgOffsets:
  "rows (results cfgOffsets 1) =
     [year_row cfgOffsets (2021 / 10000) (21 / 1000) 79790 (Suc 0) 56 (3 / 100) 103000 (186186 / 25)]"
  by (simp add: results_one_year results_effTax results_disc)
     (simp add: cfgOffsets_def cfgOneYear_def cfgScenario_def tax_100000 discountRateAfterTaxForAge_def
        ageGrowth_56)

text \<open>The closed forms at year 1 of the one-year scenario, in either ordering.\<close>

lemma closed_forms_cfgOneYear:
  "salaryAfter cfgOneYear (Suc 0) = 103000 \<and>
   medicalAfter cfgOneYear (Suc 0) = 186186 / 25 \<and>
   yearConsumption cfgOneYear (Suc 0) = 105 / 1000"
  using consumption_scenario_year1
  by (simp add: growthOfYear_def medicalAfter_def yearConsumption_def cfgOneYear_def
        cfgScenario_def ageGrowth_56)

lemma closed_forms_cfgLegacy:
  "salaryAfter cfgLegacy (Suc 0) = 103000 \<and>
   medicalAfter cfgLegacy (Suc 0) = 186186 / 25 \<and>
   yearConsumption cfgLegacy (Suc 0) = 105 / 1000"
  using consumption_scenario_year1
  by (simp add: growthOfYear_def medicalAfter_def yearConsumption_def cfgLegacy_def cfgOneYear_def
        cfgScenario_def ageGrowth_56)

text \<open>
  The before-medical ordering on the row of the one-year scenario: income plus retirement
  107120, after unemployment 100692.80, after tax 80342.78512, less consumption 8377.95,
  plus medical 7447.44.
\<close>

theorem before_medical_order_witness:
  "VCFEstimator cfgOneYear = Some (results cfgOneYear 1) \<and>
   calcYears cfgOneYear = Some 1 \<and>
   unemploymentTiming cfgOneYear = before_medical \<and>
   hd (rows (results cfgOneYear 1)) \<in> set (rows (results cfgOneYear 1)) \<and>
   map year (rows (results cfgOneYear 1)) = [1] \<and>
   projectedIncome (hd (rows (results cfgOneYear 1))) = 103000 \<and>
   retirement (hd (rows (results cfgOneYear 1))) = 4120 \<and>
   incomePlusRet (hd (rows (results cfgOneYear 1))) = 107120 \<and>
   healthContribution (hd (rows (results cfgOneYear 1))) = 7447.44 \<and>
   consumptionAmt (hd (rows (results cfgOneYear 1))) = 8377.95 \<and>
   effTax (results cfgOneYear 1) = 0.2021 \<and>
   unemploymentAdjIncome (hd (rows (results cfgOneYear 1))) = 100692.8 \<and>
   postTaxProjectedIncome (hd (rows (results cfgOneYear 1))) = 80342.78512 \<and>
   incomeLessConsumption (hd (rows (results cfgOneYear 1))) = 71964.83512 \<and>
   postTaxAdjusted (hd (rows (results cfgOneYear 1))) = 79412.27512 \<and>
   unemploymentFactor cfgOneYear > 0 \<and>
   incomePlusRet (hd (rows (results cfgOneYear 1))) \<ge> 0 \<and>
   unemploymentAdjIncome (hd (rows (results cfgOneYear 1)))
     \<le> incomePlusRet (hd (rows (results cfgOneYear 1))) \<and>
   effTax (results cfgOneYear 1) > 0 \<and>
   unemploymentAdjIncome (hd (rows (results cfgOneYear 1))) \<ge> 0 \<and>
   postTaxProjectedIncome (hd (rows (results cfgOneYear 1)))
     \<le> unemploymentAdjIncome (hd (rows (results cfgOneYear 1)))"
proof -
  let ?res = "results cfgOneYear 1"
  let ?r = "hd (rows ?res)"
  have h1: "VCFEstimator cfgOneYear = Some ?res"
    using VCFEstimator_manual_years [of cfgOneYear] by (simp add: cfgOneYear_def)
  have h2: "calcYears cfgOneYear = Some 1"
    using h1 by (auto simp: VCFEstimator_def calcYears_def cfgOneYear_def split: option.splits)
  have h3: "unemploymentTiming cfgOneYear = before_medical"
    by (simp add: cfgOneYear_def cfgScenario_def)
  have h4: "?r \<in> set (rows ?res)"
    by (simp add: rows_cfgOneYear)
  have y: "year ?r = Suc 0"
    unfolding rows_cfgOneYear list.sel by (rule year_row_year)
  have c: "mode cfgOneYear = wrongfulDeath \<and> baseIncome cfgOneYear = 100000 \<and>
           taxRate cfgOneYear = auto \<and> retirementPct cfgOneYear = 4 / 100 \<and>
           unemploymentFactor cfgOneYear = 6 / 100"
    by (simp add: cfgOneYear_def cfgScenario_def)
  note T = before_medical_order [OF h1 h2 h3 h4, unfolded y]
  have v0: "map year (rows ?res) = [1]"
    using T by simp
  have v1: "projectedIncome ?r = 103000"
    using T closed_forms_cfgOneYear by (simp del: salaryAfter.simps)
  have v2: "retirement ?r = 4120"
    using T v1 c by simp
  have v3: "incomePlusRet ?r = 107120"
    using T v1 v2 by simp
  have v4: "healthContribution ?r = 7447.44"
    using T closed_forms_cfgOneYear by (simp del: salaryAfter.simps)
  have v5: "effTax ?res = 0.2021"
    using T c tax_100000 by simp
  have v6: "consumptionAmt ?r = 8377.95"
    using T c v5 closed_forms_cfgOneYear by (simp del: salaryAfter.simps)
  have v7: "unemploymentAdjIncome ?r = 100692.8"
    using T v3 c by simp
  have v8: "postTaxProjectedIncome ?r = 80342.78512"
    using T v7 v5 by simp
  have v9: "incomeLessConsumption ?r = 71964.83512"
    using T v8 v6 by simp
  have v10: "postTaxAdjusted ?r = 79412.27512"
    using T v9 v4 by simp
  have g1: "unemploymentFactor cfgOneYear > 0" using c by simp
  have g2: "incomePlusRet ?r \<ge> 0" using v3 by simp
  have g3: "effTax ?res > 0" using v5 by simp
  have g4: "unemploymentAdjIncome ?r \<ge> 0" using v7 by simp
  have i1: "unemploymentAdjIncome ?r \<le> incomePlusRet ?r"
    using T g1 g2 by blast
  have i2: "postTaxProjectedIncome ?r \<le> unemploymentAdjIncome ?r"
    using T g3 g4 by blast
  show ?thesis
    using h1 h2 h3 h4 v0 v1 v2 v3 v4 v5 v6 v7 v8 v9 v10 g1 g2 g3 g4 i1 i2 by blast
qed

text \<open>
  The ordering is not strict: with a base income of 0, unemployment factor 6 percent and
  tax rate 14.82 percent, income plus retirement, the unemployment-adjusted income and the
  post-tax income are all 0.
\<close>

theorem before_medical_order_no_income:
  "VCFEstimator cfgNoIncome = Some (results cfgNoIncome 1) \<and>
   unemploymentTiming cfgNoIncome = before_medical \<and>
   hd (rows (results cfgNoIncome 1)) \<in> set (rows (results cfgNoIncome 1)) \<and>
   unemploymentFactor cfgNoIncome > 0 \<and>
   effTax (results cfgNoIncome 1) > 0 \<and>
   \<not> unemploymentAdjIncome (hd (rows (results cfgNoIncome 1)))
       < incomePlusRet (hd (rows (results cfgNoIncome 1))) \<and>
   \<not> postTaxProjectedIncome (hd (rows (results cfgNoIncome 1)))
       < unemploymentAdjIncome (hd (rows (results cfgNoIncome 1)))"
proof -
  have "VCFEstimator cfgNoIncome = Some (results cfgNoIncome 1)"
    using VCFEstimator_manual_years [of cfgNoIncome] by (simp add: cfgNoIncome_def cfgOneYear_def)
  moreover have "effTax (results cfgNoIncome 1) > 0"
    by (simp add: results_effTax cfgNoIncome_def cfgOneYear_def cfgScenario_def tax_0)
  ultimately show ?thesis
    unfolding rows_cfgNoIncome list.sel
    by (simp add: year_row_def Let_def cfgNoIncome_def cfgOneYear_def cfgScenario_def)
qed

text \<open>
  Claim C2. With the unemployment factor applied after medical (the legacy ordering), the
  projection has one row for each year from 1 to the horizon, and every row satisfies: the
  projected income is the base income grown over the row's year, the retirement add-on is
  the projected income times the retirement rate, and the medical contribution is the
  medical base grown over the row's year; the post-tax income is income plus retirement
  times (1 - effective tax rate); income less consumption is post-tax income minus the
  consumption amount; the subtotal before discount is (income less consumption plus the
  medical contribution) times (1 - unemployment factor), and it is also the reported
  unemployment-adjusted figure; so the medical contribution enters the subtotal scaled by
  (1 - unemployment factor).
\<close>

theorem after_medical_order:
  assumes "VCFEstimator cfg = Some res"
    and "calcYears cfg = Some n"
    and "unemploymentTiming cfg = after_medical"
    and "r \<in> set (rows res)"
  shows "map year (rows res) = [1 ..< nat \<lfloor>n\<rfloor> + 1] \<and>
         projectedIncome r = salaryAfter cfg (year r) \<and>
         retirement r = projectedIncome r * retirementPct cfg \<and>
         incomePlusRet r = projectedIncome r + retirement r \<and>
         healthContribution r = medicalAfter cfg (year r) \<and>
         consumptionAmt r =
           (if mode cfg = wrongfulDeath
            then baseIncome cfg * (1 - effTax res) * yearConsumption cfg (year r) else 0) \<and>
         effTax res =
           (case taxRate cfg of
              auto \<Rightarrow> interpolateTaxRate (baseIncome cfg) NY_EFFECTIVE_TAX_TABLE
            | num x \<Rightarrow> x) \<and>
         postTaxProjectedIncome r = incomePlusRet r * (1 - effTax res) \<and>
         incomeLessConsumption r = postTaxProjectedIncome r - consumptionAmt r \<and>
         postTaxAdjusted r =
           (incomeLessConsumption r + healthContribution r) * (1 - unemploymentFactor cfg) \<and>
         unemploymentAdjIncome r = postTaxAdjusted r \<and>
         postTaxAdjusted r =
           incomeLessConsumption r * (1 - unemploymentFactor cfg)
           + healthContribution r * (1 - unemploymentFactor cfg)"
proof -
  have res: "res = results cfg n"
    using assms(1,2) by (rule VCFEstimator_calcYears)
  have ys: "map year (rows res) = [1 ..< nat \<lfloor>n\<rfloor> + 1]"
    unfolding res by (rule results_years)
  have eT: "effTax res =
           (case taxRate cfg of
              auto \<Rightarrow> interpolateTaxRate (baseIncome cfg) NY_EFFECTIVE_TAX_TABLE
            | num x \<Rightarrow> x)"
    unfolding res by (rule results_effTax)
  let ?row = "year_row cfg (effTax res) (disc res) (baseIncome cfg * (1 - effTax res)) (year r)
               (ageAtStart cfg + real (year r)) (growthOfYear cfg (year r))
               (salaryAfter cfg (year r)) (medicalAfter cfg (year r))"
  have eq: "r = ?row"
    using results_row_closed [of r cfg n] assms(4) unfolding res by blast
  note row = year_row_after [OF assms(3)]
  have f1: "projectedIncome r = salaryAfter cfg (year r)"
    using arg_cong [OF eq, of projectedIncome] by (simp add: row)
  have f2: "retirement r = salaryAfter cfg (year r) * retirementPct cfg"
    using arg_cong [OF eq, of retirement] by (simp add: row)
  have f3: "incomePlusRet r = salaryAfter cfg (year r) + salaryAfter cfg (year r) * retirementPct cfg"
    using arg_cong [OF eq, of incomePlusRet] by (simp add: row)
  have f4: "healthContribution r = medicalAfter cfg (year r)"
    using arg_cong [OF eq, of healthContribution] by (simp add: row)
  have f5: "consumptionAmt r =
           (if mode cfg = wrongfulDeath
            then baseIncome cfg * (1 - effTax res) * yearConsumption cfg (year r) else 0)"
    using arg_cong [OF eq, of consumptionAmt] by (simp add: row)
  have f6: "postTaxProjectedIncome r = incomePlusRet r * (1 - effTax res)"
    using arg_cong [OF eq, of postTaxProjectedIncome] by (simp add: row f3)
  have f7: "incomeLessConsumption r = postTaxProjectedIncome r - consumptionAmt r"
    using arg_cong [OF eq, of incomeLessConsumption] by (simp add: row f3 f5 f6)
  have f8: "postTaxAdjusted r =
           (incomeLessConsumption r + healthContribution r) * (1 - unemploymentFactor cfg)"
    using arg_cong [OF eq, of postTaxAdjusted] by (simp add: row f3 f4 f5 f6 f7)
  have f9: "unemploymentAdjIncome r = postTaxAdjusted r"
    using arg_cong [OF eq, of unemploymentAdjIncome] arg_cong [OF eq, of postTaxAdjusted]
    by (simp add: row)
  have f10: "postTaxAdjusted r =
           incomeLessConsumption r * (1 - unemploymentFactor cfg)
           + healthContribution r * (1 - unemploymentFactor cfg)"
    unfolding f8 by (rule distrib_right)
  have f2': "retirement r = projectedIncome r * retirementPct cfg"
    using f1 f2 by simp
  have f3': "incomePlusRet r = projectedIncome r + retirement r"
    using f1 f2 f3 by simp
  show ?thesis
    using ys eT f1 f2' f3' f4 f5 f6 f7 f8 f9 f10 by blast
qed

text \<open>
  The legacy ordering on the row of the one-year scenario: income plus retirement 107120,
  after tax 85471.048, less consumption 8377.95, plus medical 7447.44, and 94 percent of
  that sum, 79468.10572, as subtotal and as unemployment-adjusted figure.
\<close>

theorem after_medical_order_witness:
  "VCFEstimator cfgLegacy = Some (results cfgLegacy 1) \<and>
   calcYears cfgLegacy = Some 1 \<and>
   unemploymentTiming cfgLegacy = after_medical \<and>
   hd (rows (results cfgLegacy 1)) \<in> set (rows (results cfgLegacy 1)) \<and>
   map year (rows (results cfgLegacy 1)) = [1] \<and>
   projectedIncome (hd (rows (results cfgLegacy 1))) = 103000 \<and>
   retirement (hd (rows (results cfgLegacy 1))) = 4120 \<and>
   incomePlusRet (hd (rows (results cfgLegacy 1))) = 107120 \<and>
   healthContribution (hd (rows (results cfgLegacy 1))) = 7447.44 \<and>
   consumptionAmt (hd (rows (results cfgLegacy 1))) = 8377.95 \<and>
   effTax (results cfgLegacy 1) = 0.2021 \<and>
   postTaxProjectedIncome (hd (rows (results cfgLegacy 1))) = 85471.048 \<and>
   incomeLessConsumption (hd (rows (results cfgLegacy 1))) = 77093.098 \<and>
   postTaxAdjusted (hd (rows (results cfgLegacy 1))) = 79468.10572 \<and>
   unemploymentAdjIncome (hd (rows (results cfgLegacy 1))) = 79468.10572 \<and>
   postTaxAdjusted (hd (rows (results cfgLegacy 1))) = 77093.098 * 0.94 + 7447.44 * 0.94"
proof -
  let ?res = "results cfgLegacy 1"
  let ?r = "hd (rows ?res)"
  have h1: "VCFEstimator cfgLegacy = Some ?res"
    using VCFEstimator_manual_years [of cfgLegacy] by (simp add: cfgLegacy_def cfgOneYear_def)
  have h2: "calcYears cfgLegacy = Some 1"
    using h1
    by (auto simp: VCFEstimator_def calcYears_def cfgLegacy_def cfgOneYear_def split: option.splits)
  have h3: "unemploymentTiming cfgLegacy = after_medical"
    by (simp add: cfgLegacy_def)
  have h4: "?r \<in> set (rows ?res)"
    by (simp add: rows_cfgLegacy)
  have y: "year ?r = Suc 0"
    unfolding rows_cfgLegacy list.sel by (rule year_row_year)
  have c: "mode cfgLegacy = wrongfulDeath \<and> baseIncome cfgLegacy = 100000 \<and>
           taxRate cfgLegacy = auto \<and> retirementPct cfgLegacy = 4 / 100 \<and>
           unemploymentFactor cfgLegacy = 6 / 100"
    by (simp add: cfgLegacy_def cfgOneYear_def cfgScenario_def)
  note T = after_medical_order [OF h1 h2 h3 h4, unfolded y]
  have v0: "map year (rows ?res) = [1]"
    using T by simp
  have v1: "projectedIncome ?r = 103000"
    using T closed_forms_cfgLegacy by (simp del: salaryAfter.simps)
  have v2: "retirement ?r = 4120"
    using T v1 c by simp
  have v3: "incomePlusRet ?r = 107120"
    using T v1 v2 by simp
  have v4: "healthContribution ?r = 7447.44"
    using T closed_forms_cfgLegacy by (simp del: salaryAfter.simps)
  have v5: "effTax ?res = 0.2021"
    using T c tax_100000 by simp
  have v6: "consumptionAmt ?r = 8377.95"
    using T c v5 closed_forms_cfgLegacy by (simp del: salaryAfter.simps)
  have v7: "postTaxProjectedIncome ?r = 85471.048"
    using T v3 v5 by simp
  have v8: "incomeLessConsumption ?r = 77093.098"
    using T v7 v6 by simp
  have v9: "postTaxAdjusted ?r = 79468.10572"
    using T v8 v4 c by simp
  have v10: "unemploymentAdjIncome ?r = 79468.10572"
    using T v9 by simp
  have v11: "postTaxAdjusted ?r = 77093.098 * 0.94 + 7447.44 * 0.94"
    using T v8 v4 c by simp
  show ?thesis
    using h1 h2 h3 h4 v0 v1 v2 v3 v4 v5 v6 v7 v8 v9 v10 v11 by blast
qed

section \<open>Consumption\<close>

text \<open>
  Claim C3. In wrongful-death mode the consumption amount of every row is the base
  income times (1 - effective tax rate), times the consumption rate of that row's year;
  the rate is the manual percentage or the bracket lookup at the base income for the
  dependents still under 23 in that year, and the effective tax rate is the one resolved
  from the base income, so the projected salary of the year does not enter. In injury
  mode the consumption rate and the consumption amount of every row are zero.
\<close>

theorem consumption_anchored:
  assumes "VCFEstimator cfg = Some res"
    and "r \<in> set (rows res)"
  shows "(mode cfg = wrongfulDeath \<longrightarrow>
            consumptionAmt r = (baseIncome cfg * (1 - effTax res)) * consumptionRate r \<and>
            consumptionRate r =
              (if manualConsumption cfg then consumptionPct cfg
               else interpolateConsumption (baseIncome cfg) (marital cfg)
                      (getChildCountUnder23 [child1Age cfg, child2Age cfg] (real (year r) - 1))
                      CONSUMPTION_TABLE)) \<and>
         (mode cfg = injury \<longrightarrow> consumptionRate r = 0 \<and> consumptionAmt r = 0) \<and>
         effTax res =
           (case taxRate cfg of
              auto \<Rightarrow> interpolateTaxRate (baseIncome cfg) NY_EFFECTIVE_TAX_TABLE
            | num x \<Rightarrow> x)"
proof -
  obtain n where res: "res = results cfg n"
    using assms(1) VCFEstimator_Some by blast
  let ?P = "\<lambda>r. (mode cfg = wrongfulDeath \<longrightarrow>
            consumptionAmt r = (baseIncome cfg * (1 - effTax res)) * consumptionRate r \<and>
            consumptionRate r =
              (if manualConsumption cfg then consumptionPct cfg
               else interpolateConsumption (baseIncome cfg) (marital cfg)
                      (getChildCountUnder23 [child1Age cfg, child2Age cfg] (real (year r) - 1))
                      CONSUMPTION_TABLE)) \<and>
         (mode cfg = injury \<longrightarrow> consumptionRate r = 0 \<and> consumptionAmt r = 0)"
  have "?P r"
  proof (rule results_rows_inv [of ?P cfg n])
    show "r \<in> set (rows (results cfg n))"
      using assms(2) res by simp
  next
    fix t a g s m
    show "?P (year_row cfg (effTax (results cfg n)) (disc (results cfg n))
             (baseIncome cfg * (1 - effTax (results cfg n))) t a g s m)"
      by (cases "unemploymentTiming cfg")
         (simp_all add: year_row_def yearConsumption_def Let_def res)
  qed
  then show ?thesis
    using res results_effTax [of cfg n] by simp
qed

text \<open>The row of the one-year scenario, in wrongful-death and in injury mode.\<close>

theorem consumption_anchored_witness:
  "VCFEstimator cfgOneYear = Some (results cfgOneYear 1) \<and>
   hd (rows (results cfgOneYear 1)) \<in> set (rows (results cfgOneYear 1)) \<and>
   mode cfgOneYear = wrongfulDeath \<and>
   consumptionRate (hd (rows (results cfgOneYear 1))) = 0.105 \<and>
   consumptionAmt (hd (rows (results cfgOneYear 1))) = 100000 * (1 - 0.2021) * 0.105 \<and>
   VCFEstimator cfgInjury = Some (results cfgInjury 1) \<and>
   hd (rows (results cfgInjury 1)) \<in> set (rows (results cfgInjury 1)) \<and>
   mode cfgInjury = injury \<and>
   consumptionRate (hd (rows (results cfgInjury 1))) = 0 \<and>
   consumptionAmt (hd (rows (results cfgInjury 1))) = 0"
proof -
  let ?res = "results cfgOneYear 1"
  let ?r = "hd (rows ?res)"
  let ?resI = "results cfgInjury 1"
  let ?rI = "hd (rows ?resI)"
  have h1: "VCFEstimator cfgOneYear = Some ?res"
    using VCFEstimator_manual_years [of cfgOneYear] by (simp add: cfgOneYear_def)
  have h2: "?r \<in> set (rows ?res)"
    by (simp add: rows_cfgOneYear)
  have h3: "mode cfgOneYear = wrongfulDeath"
    by (simp add: cfgOneYear_def cfgScenario_def)
  have y: "year ?r = 1"
    unfolding rows_cfgOneYear list.sel by (simp add: year_row_def Let_def split: prod.splits)
  have c: "\<not> manualConsumption cfgOneYear \<and> baseIncome cfgOneYear = 100000 \<and>
           marital cfgOneYear = married \<and> child1Age cfgOneYear = Some 10 \<and>
           child2Age cfgOneYear = None"
    by (simp add: cfgOneYear_def cfgScenario_def)
  have e: "effTax ?res = 0.2021"
    by (simp add: results_effTax cfgOneYear_def cfgScenario_def tax_100000)
  have w: "consumptionRate ?r = 0.105 \<and> consumptionAmt ?r = 100000 * (1 - 0.2021) * 0.105"
    using consumption_anchored [OF h1 h2] h3 y c e consumption_scenario_year1 by simp
  have i1: "VCFEstimator cfgInjury = Some ?resI"
    using VCFEstimator_manual_years [of cfgInjury] by (simp add: cfgInjury_def cfgOneYear_def)
  have i2: "?rI \<in> set (rows ?resI)"
    by (simp add: rows_cfgInjury)
  have i3: "mode cfgInjury = injury"
    by (simp add: cfgInjury_def)
  have i: "consumptionRate ?rI = 0 \<and> consumptionAmt ?rI = 0"
    using consumption_anchored [OF i1 i2] i3 by blast
  show ?thesis
    using h1 h2 h3 w i1 i2 i3 i by blast
qed

section \<open>Offsets and the net present value\<close>

text \<open>
  Claim C4. For a discount rate other than -100 percent: the present value of the offsets
  is the sum over \<open>t\<close> from 1 to the offset years of the annual offset divided by
  \<open>(1 + disc) ^ t\<close> when a periodic offset is configured (annual amount and years both
  positive), plus the lump sum undiscounted; the gross present value is the sum of the
  rows' discounted amounts; the net present value is the maximum of 0 and gross minus
  offsets; so it is exactly 0 whenever the offsets exceed the gross value, and never
  negative.
\<close>

theorem offsets_and_net:
  assumes "VCFEstimator cfg = Some res"
    and "disc res \<noteq> - 1"
  shows "pvOffset res =
           (if offsetAnnual cfg > 0 \<and> offsetYears cfg > 0
            then (\<Sum>t = 1..nat \<lfloor>offsetYears cfg\<rfloor>. offsetAnnual cfg / (1 + disc res) ^ t)
            else 0) + offsetLumpSum cfg \<and>
         pvSum res = sum_list (map discounted (rows res)) \<and>
         netPV res = max 0 (pvSum res - pvOffset res) \<and>
         (pvOffset res > pvSum res \<longrightarrow> netPV res = 0) \<and>
         0 \<le> netPV res"
proof -
  obtain n where res: "res = results cfg n"
    using assms(1) VCFEstimator_Some by blast
  have o: "pvOffset res =
           (if offsetAnnual cfg > 0 \<and> offsetYears cfg > 0
            then (\<Sum>t = 1..nat \<lfloor>offsetYears cfg\<rfloor>. offsetAnnual cfg / (1 + disc res) ^ t)
            else 0) + offsetLumpSum cfg"
    unfolding res results_pvOffset by (simp add: offset_loop_sum)
  have g: "pvSum res = sum_list (map discounted (rows res))"
    unfolding res by (rule results_pvSum_rows)
  have n: "netPV res = max 0 (pvSum res - pvOffset res)"
    unfolding res by (rule results_netPV)
  show ?thesis
    using o g n by simp
qed

text \<open>
  The one-year scenario with an annual offset of 1000 over two years and a lump sum of
  500000: the offsets exceed the gross value and the net value is 0.
\<close>

theorem offsets_and_net_witness:
  "VCFEstimator cfgOffsets = Some (results cfgOffsets 1) \<and>
   disc (results cfgOffsets 1) \<noteq> - 1 \<and>
   offsetAnnual cfgOffsets > 0 \<and> offsetYears cfgOffsets > 0 \<and>
   pvOffset (results cfgOffsets 1) = 1000 / 1.021 + 1000 / 1.021 ^ 2 + 500000 \<and>
   pvSum (results cfgOffsets 1) = 79412.27512 / 1.021 \<and>
   pvOffset (results cfgOffsets 1) > pvSum (results cfgOffsets 1) \<and>
   netPV (results cfgOffsets 1) = 0"
proof -
  let ?res = "results cfgOffsets 1"
  have h1: "VCFEstimator cfgOffsets = Some ?res"
    using VCFEstimator_manual_years [of cfgOffsets] by (simp add: cfgOffsets_def cfgOneYear_def)
  have d: "disc ?res = 0.021"
    by (simp add: results_disc cfgOffsets_def cfgOneYear_def cfgScenario_def
          discountRateAfterTaxForAge_def)
  then have h2: "disc ?res \<noteq> - 1"
    by simp
  have c: "offsetAnnual cfgOffsets = 1000 \<and> offsetYears cfgOffsets = 2 \<and>
           offsetLumpSum cfgOffsets = 500000"
    by (simp add: cfgOffsets_def)
  have s: "{1..nat \<lfloor>2::real\<rfloor>} = {1, 2}"
    by auto
  have row: "discounted (year_row cfgOffsets (2021 / 10000) (21 / 1000) 79790 (Suc 0) 56 (3 / 100)
                103000 (186186 / 25)) = 79412.27512 / 1.021"
    using consumption_scenario_year1
    by (simp add: year_row_def yearConsumption_def Let_def cfgOffsets_def cfgOneYear_def
          cfgScenario_def)
  note T = offsets_and_net [OF h1 h2]
  have o: "pvOffset ?res = 1000 / 1.021 + 1000 / 1.021 ^ 2 + 500000"
    using T c d s by simp
  have g: "pvSum ?res = 79412.27512 / 1.021"
    using T row by (simp add: rows_cfgOffsets)
  have lt: "pvOffset ?res > pvSum ?res"
    unfolding o g by (simp add: power2_eq_square)
  have z: "netPV ?res = 0"
    using T lt by blast
  show ?thesis
    using h1 h2 c o g lt z by simp
qed

text \<open>
  Claim C10. The periodic offset enters the present value of the offsets only when the
  annual amount and the number of offset years are both positive: when the annual amount
  is at most 0 or the years are at most 0, the present value of the offsets is exactly
  the lump sum (and the net present value is the gross value less the lump sum, floored
  at 0), so a negative annual amount never raises the net value.
\<close>

theorem periodic_offset_guard:
  assumes "VCFEstimator cfg = Some res"
    and "offsetAnnual cfg \<le> 0 \<or> offsetYears cfg \<le> 0"
  shows "pvOffset res = offsetLumpSum cfg \<and>
         netPV res = max 0 (pvSum res - offsetLumpSum cfg)"
proof -
  obtain n where res: "res = results cfg n"
    using assms(1) VCFEstimator_Some by blast
  have "pvOffset (results cfg n) = offsetLumpSum cfg"
    using assms(2) by (auto simp: results_pvOffset)
  then show ?thesis
    using results_netPV [of cfg n] res by simp
qed

text \<open>The one-year scenario with an annual offset of -500 over five years and a lump sum of 1000.\<close>

theorem periodic_offset_guard_witness:
  "VCFEstimator cfgNegativeOffset = Some (results cfgNegativeOffset 1) \<and>
   (offsetAnnual cfgNegativeOffset \<le> 0 \<or> offsetYears cfgNegativeOffset \<le> 0) \<and>
   pvOffset (results cfgNegativeOffset 1) = 1000"
proof -
  have h1: "VCFEstimator cfgNegativeOffset = Some (results cfgNegativeOffset 1)"
    using VCFEstimator_manual_years [of cfgNegativeOffset]
    by (simp add: cfgNegativeOffset_def cfgOneYear_def)
  have h2: "offsetAnnual cfgNegativeOffset \<le> 0 \<or> offsetYears cfgNegativeOffset \<le> 0"
    by (simp add: cfgNegativeOffset_def)
  have "offsetLumpSum cfgNegativeOffset = 1000"
    by (simp add: cfgNegativeOffset_def)
  then show ?thesis
    using periodic_offset_guard [OF h1 h2] h1 h2 by simp
qed

section \<open>The scenario\<close>

lemma lookupWorklife_55: "lookupWorklife 55 = Some \<lparr>wlr_years = 11, exitAge = 66\<rparr>"
  by (simp add: lookupWorklife_def WORKLIFE_TABLE_def Math_round_def)

lemma calcYears_scenario: "calcYears cfgScenario = Some 11"
  using lookupWorklife_55 by (simp add: calcYears_def cfgScenario_def)

lemma VCFEstimator_scenario: "VCFEstimator cfgScenario = Some (results cfgScenario 11)"
  by (simp add: VCFEstimator_def calcYears_scenario)

lemma ages_scenario:
  "map age (rows (results cfgScenario 11)) = [56, 57, 58, 59, 60, 61, 62, 63, 64, 65, 66]"
proof -
  have "map age (rows (results cfgScenario 11)) =
          map (\<lambda>k. ageAtStart cfgScenario + real k) [1 ..< nat \<lfloor>11 :: real\<rfloor> + 1]"
    unfolding results_rows by (subst year_loop_ages) simp_all
  also have "[1 ..< nat \<lfloor>11 :: real\<rfloor> + 1] = [1, 2, 3, 4, 5, 6, 7, 8, 9, 10, 11]"
    by (simp add: upt_rec)
  finally show ?thesis
    by (simp add: cfgScenario_def)
qed

lemma disc_scenario: "disc (results cfgScenario 11) = 0.021"
  by (simp add: results_disc cfgScenario_def discountRateAfterTaxForAge_def)

text \<open>
  Claim C5. In the scenario (start age 55, wrongful death, married with one dependent
  aged 10, base income 100000, horizon from the firm work-life table, unemployment before
  medical, automatic tax, discount and consumption) the row of age 55 holds 10.53 years,
  which rounds to a horizon of 11 years; the projection has exactly 11 rows, their
  attained ages increase strictly from 56 to 66, and the discount rate is 2.1 percent.
\<close>

theorem scenario_projection:
  "lookupWorklife 55 = Some \<lparr>wlr_years = 11, exitAge = 66\<rparr> \<and>
   calcYears cfgScenario = Some 11 \<and>
   VCFEstimator cfgScenario = Some (results cfgScenario 11) \<and>
   length (rows (results cfgScenario 11)) = 11 \<and>
   map age (rows (results cfgScenario 11)) = [56, 57, 58, 59, 60, 61, 62, 63, 64, 65, 66] \<and>
   sorted_wrt (<) (map age (rows (results cfgScenario 11))) \<and>
   disc (results cfgScenario 11) = 0.021"
proof -
  have "length (map age (rows (results cfgScenario 11))) = 11"
    unfolding ages_scenario by simp
  then have "length (rows (results cfgScenario 11)) = 11"
    by simp
  moreover have "sorted_wrt (<) (map age (rows (results cfgScenario 11)))"
    unfolding ages_scenario by simp
  ultimately show ?thesis
    using lookupWorklife_55 calcYears_scenario VCFEstimator_scenario ages_scenario disc_scenario
    by simp
qed

text \<open>The horizon of the scenario is not 10 years, and its rows are not those of the ages 56 to 65.\<close>

theorem scenario_not_ten_years:
  "calcYears cfgScenario \<noteq> Some 10 \<and>
   length (rows (the (VCFEstimator cfgScenario))) \<noteq> 10 \<and>
   map age (rows (the (VCFEstimator cfgScenario))) \<noteq> [56, 57, 58, 59, 60, 61, 62, 63, 64, 65]"
proof -
  have "length (map age (rows (results cfgScenario 11))) = 11"
    unfolding ages_scenario by simp
  then have "length (rows (results cfgScenario 11)) = 11"
    by simp
  then show ?thesis
    using calcYears_scenario VCFEstimator_scenario ages_scenario by simp
qed

end
